theory Spec2Isabelle
  imports Main "HOL-Library.Char_ord" "HOL-Library.List_Lexorder" "HOL-Library.AList" "HOL-Library.Multiset"
begin

section \<open>Output sinks and write results\<close>

text \<open>
  Go strings are byte sequences, modelled as \<open>string\<close> (a list of 8-bit characters), so
  \<open>length\<close> counts bytes as Go's \<open>len\<close> does.

  An \<open>io.Writer\<close> is modelled by the bytes it has accepted so far together with a
  policy: given those bytes and the string offered, the policy answers \<open>None\<close> (the whole
  string is accepted, no error) or \<open>Some k\<close> (at most \<open>k\<close> bytes are accepted and the
  write returns an error). A \<open>bytes.Buffer\<close> is the policy that always answers \<open>None\<close>.

  A Go function returning \<open>(n int, err error)\<close> returns \<open>Ok n\<close> when \<open>err\<close> is nil and
  \<open>Fail n\<close> otherwise; a runtime panic (slice or index out of range, nil dereference) is
  \<open>Panic\<close>.
\<close>

type_synonym policy = "string \<Rightarrow> string \<Rightarrow> nat option"

datatype result = Ok nat | Fail nat | Panic

definition buffer :: policy where
  "buffer = (\<lambda>out s. None)"

text \<open>
  A sink of bounded capacity \<open>k\<close>: a write that does not fit is cut at the capacity and
  reports an error.
\<close>

definition limited :: "nat \<Rightarrow> policy" where
  "limited k = (\<lambda>out s. if length out + length s \<le> k then None else Some (k - length out))"

definition io_WriteString :: "policy \<Rightarrow> string \<Rightarrow> string \<Rightarrow> string \<times> result" where
  "io_WriteString pol out s =
     (case pol out s of
        None \<Rightarrow> (out @ s, Ok (length s))
      | Some k \<Rightarrow> (out @ take k s, Fail (min k (length s))))"

text \<open>
  The statement \<open>if count, err := f(...); err != nil { return n, err } else { n += count }\<close>
  that every writer of the package is built from: on an error the count of the failing
  call is dropped and the caller's \<open>n\<close> is returned with the error.
\<close>

fun attempt :: "nat \<Rightarrow> string \<times> result \<Rightarrow> (string \<Rightarrow> nat \<Rightarrow> string \<times> result) \<Rightarrow> string \<times> result" where
  "attempt n (out, Ok cnt) k = k out (n + cnt)"
| "attempt n (out, Fail cnt) k = (out, Fail n)"
| "attempt n (out, Panic) k = (out, Panic)"

definition writeRune :: "policy \<Rightarrow> string \<Rightarrow> char \<Rightarrow> string \<times> result" where
  "writeRune pol out ch = io_WriteString pol out [ch]"

definition writeIndent :: "policy \<Rightarrow> string \<Rightarrow> nat \<Rightarrow> string \<times> result" where
  "writeIndent pol out indent = io_WriteString pol out (replicate indent CHR '' '')"

section \<open>The variable parser (text\_tag\_var.go)\<close>

record Var =
  startOffset :: nat
  lengthV :: nat

text \<open>\<open>strings.IndexRune\<close> for an ASCII rune: the index of the first such byte, or -1 (\<open>None\<close>).\<close>

fun IndexRune :: "string \<Rightarrow> char \<Rightarrow> nat option" where
  "IndexRune [] c = None"
| "IndexRune (x # xs) c = (if x = c then Some 0 else map_option Suc (IndexRune xs c))"

definition isIdentStart :: "char \<Rightarrow> bool" where
  "isIdentStart c \<longleftrightarrow>
     (CHR ''a'' \<le> c \<and> c \<le> CHR ''z'') \<or> (CHR ''A'' \<le> c \<and> c \<le> CHR ''Z'') \<or> c = CHR ''_''"

definition isIdentChar :: "char \<Rightarrow> bool" where
  "isIdentChar c \<longleftrightarrow> isIdentStart c \<or> (CHR ''0'' \<le> c \<and> c \<le> CHR ''9'')"

text \<open>
  \<open>reVar.FindString\<close> for \<open>reVar = ^(\$|[a-zA-Z_]+[a-zA-Z0-9_]*)\<close>: the match is anchored
  at the start; the first alternative is a single \<open>$\<close>, the second the longest run of
  identifier characters after a letter or underscore; no match gives the empty string.
\<close>

definition reVar_FindString :: "string \<Rightarrow> string" where
  "reVar_FindString s =
     (case s of
        [] \<Rightarrow> []
      | c # cs \<Rightarrow>
          if c = CHR ''$'' then [c]
          else if isIdentStart c then c # takeWhile isIdentChar cs
          else [])"

function parseVars_loop :: "string \<Rightarrow> nat \<Rightarrow> Var list \<Rightarrow> Var list" where
  "parseVars_loop text offset vars =
     (if offset < length text then
        (let currText = drop offset text in
         case IndexRune currText CHR ''$'' of
           None \<Rightarrow> vars
         | Some index \<Rightarrow>
             (let match = reVar_FindString (drop (index + 1) currText);
                  varLen = 1 + length match
              in parseVars_loop text (offset + (index + varLen))
                   (vars @ [\<lparr>startOffset = offset + index, lengthV = varLen\<rparr>])))
      else vars)"
  by pat_completeness auto
termination
  by (relation "measure (\<lambda>(text, offset, vars). length text - offset)") auto

declare parseVars_loop.simps [simp del]

definition parseVars :: "string \<Rightarrow> Var list" where
  "parseVars text = parseVars_loop text 0 []"

section \<open>Variable text leaves (text\_tag\_var.go)\<close>

type_synonym Environment = "string \<rightharpoonup> string"

record TextTagVar =
  vtext :: string
  vars :: "Var list"
  isUnsafe :: bool

definition NewTextTagVar :: "string \<Rightarrow> TextTagVar" where
  "NewTextTagVar txt = \<lparr>vtext = txt, vars = parseVars txt, isUnsafe = False\<rparr>"

definition SetUnsafe :: "bool \<Rightarrow> TextTagVar \<Rightarrow> TextTagVar" where
  "SetUnsafe u t = t\<lparr>isUnsafe := u\<rparr>"

definition SetText :: "string \<Rightarrow> TextTagVar \<Rightarrow> TextTagVar" where
  "SetText txt t = t\<lparr>vtext := txt\<rparr>"

text \<open>
  \<open>TextTagVar.TV\<close> appends its first argument, if any, to the text. Like \<open>SetText\<close> it
  leaves \<open>vars\<close> as \<open>NewTextTagVar\<close> computed them.
\<close>

definition TextTagVar_TV :: "string list \<Rightarrow> TextTagVar \<Rightarrow> TextTagVar" where
  "TextTagVar_TV txt t = (case txt of [] \<Rightarrow> t | x # xs \<Rightarrow> t\<lparr>vtext := vtext t @ x\<rparr>)"

text \<open>\<open>html.EscapeString\<close> of the Go standard library.\<close>

definition escapeChar :: "char \<Rightarrow> string" where
  "escapeChar c =
     (if c = CHR ''&'' then ''&amp;''
      else if c = CHR 0x27 then ''&#39;''
      else if c = CHR ''<'' then ''&lt;''
      else if c = CHR ''>'' then ''&gt;''
      else if c = CHR 0x22 then ''&#34;''
      else [c])"

definition EscapeString :: "string \<Rightarrow> string" where
  "EscapeString s = concat (map escapeChar s)"

text \<open>Go's slice expressions \<open>s[lo:hi]\<close> and \<open>s[lo:]\<close> panic when out of range.\<close>

definition slice :: "string \<Rightarrow> nat \<Rightarrow> nat \<Rightarrow> string option" where
  "slice s lo hi = (if lo \<le> hi \<and> hi \<le> length s then Some (take (hi - lo) (drop lo s)) else None)"

definition sliceFrom :: "string \<Rightarrow> nat \<Rightarrow> string option" where
  "sliceFrom s lo = (if lo \<le> length s then Some (drop lo s) else None)"

definition undefinedVarValue :: string where
  "undefinedVarValue = ''undefined''"

text \<open>The body of the loop over \<open>t.vars\<close> in \<open>TextTagVar.write\<close>, for one span.\<close>

definition write_var :: "policy \<Rightarrow> TextTagVar \<Rightarrow> Environment \<Rightarrow> Var \<Rightarrow> nat \<Rightarrow> nat \<Rightarrow> string \<Rightarrow> string \<times> result" where
  "write_var pol t env v offset cnt out =
     (case slice (vtext t) offset (startOffset v) of
        None \<Rightarrow> (out, Panic)
      | Some txt \<Rightarrow>
          attempt cnt
            (io_WriteString pol out (if \<not> isUnsafe t then EscapeString txt else txt))
            (\<lambda>out cnt.
               case slice (vtext t) (startOffset v) (startOffset v + lengthV v) of
                 None \<Rightarrow> (out, Panic)
               | Some varName0 \<Rightarrow>
                   (case sliceFrom varName0 1 of
                      None \<Rightarrow> (out, Panic)
                    | Some varName \<Rightarrow>
                        if varName = ''$'' then
                          attempt cnt (io_WriteString pol out ''$'') (\<lambda>out cnt. (out, Ok cnt))
                        else
                          (let val = (case env varName of None \<Rightarrow> undefinedVarValue | Some x \<Rightarrow> x);
                               valueStr = (if \<not> isUnsafe t then EscapeString val else val)
                           in attempt cnt (io_WriteString pol out valueStr)
                                (\<lambda>out cnt. (out, Ok cnt))))))"

fun write_vars :: "policy \<Rightarrow> TextTagVar \<Rightarrow> Environment \<Rightarrow> Var list \<Rightarrow> nat \<Rightarrow> nat \<Rightarrow> string \<Rightarrow> string \<times> result" where
  "write_vars pol t env [] offset cnt out =
     (case sliceFrom (vtext t) offset of
        None \<Rightarrow> (out, Panic)
      | Some txt \<Rightarrow>
          attempt cnt
            (io_WriteString pol out (if \<not> isUnsafe t then EscapeString txt else txt))
            (\<lambda>out cnt. (out, Ok cnt)))"
| "write_vars pol t env (v # vs) offset cnt out =
     (case write_var pol t env v offset cnt out of
        (out', Ok count') \<Rightarrow> write_vars pol t env vs (startOffset v + lengthV v) count' out'
      | (out', Fail n) \<Rightarrow> (out', Fail n)
      | (out', Panic) \<Rightarrow> (out', Panic))"

definition TextTagVar_write :: "policy \<Rightarrow> string \<Rightarrow> TextTagVar \<Rightarrow> Environment \<Rightarrow> string \<times> result" where
  "TextTagVar_write pol out t env = write_vars pol t env (vars t) 0 0 out"

section \<open>Expansion as the specification words it\<close>

text \<open>
  The expansion of a variable text as section 4.5 of the specification describes it, as the
  list of strings emitted in order: for each span the literal text before it, then the
  substitution for the span; after all spans the remaining suffix.
\<close>

definition spec_literal :: "bool \<Rightarrow> string \<Rightarrow> string" where
  "spec_literal unsafe s = (if unsafe then s else EscapeString s)"

definition spec_name :: "string \<Rightarrow> Var \<Rightarrow> string" where
  "spec_name txt v = drop 1 (take (lengthV v) (drop (startOffset v) txt))"

definition spec_substitute :: "Environment \<Rightarrow> bool \<Rightarrow> string \<Rightarrow> string" where
  "spec_substitute env unsafe name =
     (if name = ''$'' then ''$''
      else spec_literal unsafe (case env name of None \<Rightarrow> ''undefined'' | Some x \<Rightarrow> x))"

fun spec_expansion :: "string \<Rightarrow> Environment \<Rightarrow> bool \<Rightarrow> nat \<Rightarrow> Var list \<Rightarrow> string list" where
  "spec_expansion txt env unsafe pos [] = [spec_literal unsafe (drop pos txt)]"
| "spec_expansion txt env unsafe pos (v # vs) =
     spec_literal unsafe (take (startOffset v - pos) (drop pos txt))
       # spec_substitute env unsafe (spec_name txt v)
       # spec_expansion txt env unsafe (startOffset v + lengthV v) vs"

text \<open>Emitting a list of strings in order, stopping at the first write the sink rejects.\<close>

fun spec_emit :: "policy \<Rightarrow> nat \<Rightarrow> string \<Rightarrow> string list \<Rightarrow> string \<times> result" where
  "spec_emit pol n out [] = (out, Ok n)"
| "spec_emit pol n out (p # ps) =
     (case io_WriteString pol out p of
        (out', Ok c) \<Rightarrow> spec_emit pol (n + c) out' ps
      | (out', Fail c) \<Rightarrow> (out', Fail n)
      | (out', Panic) \<Rightarrow> (out', Panic))"

text \<open>Well-formed spans over a text, from position \<open>lo\<close> on.\<close>

fun spans_ok :: "string \<Rightarrow> nat \<Rightarrow> Var list \<Rightarrow> bool" where
  "spans_ok txt lo [] = True"
| "spans_ok txt lo (v # vs) =
     (lo \<le> startOffset v \<and> 1 \<le> lengthV v \<and> startOffset v < length txt \<and>
      txt ! startOffset v = CHR ''$'' \<and> startOffset v + lengthV v \<le> length txt \<and>
      spans_ok txt (startOffset v + lengthV v) vs)"

section \<open>Constants (constants.go)\<close>


definition attrStringMap :: "string list" where
  "attrStringMap =
   [''accept-charset'', ''action'', ''alt'', ''autocomplete'', ''autofocus'', ''border'',
    ''charset'', ''checked'', ''class'', ''cols'', ''colspan'', ''content'', ''disabled'',
    ''enctype'', ''for'', ''form'', ''headers'', ''height'', ''href'', ''hreflang'',
    ''http-equiv'', ''id'', ''ismap'', ''label'', ''list'', ''max'', ''maxlength'',
    ''media'', ''method'', ''min'', ''multiple'', ''name'', ''onblur'', ''onchange'',
    ''onclick'', ''ondblclick'', ''onfocus'', ''onload'', ''onkeydown'', ''onkeypress'',
    ''onkeyup'', ''onmousedown'', ''onmousemove'', ''onmouseout'', ''onmouseover'',
    ''onmouseup'', ''onselect'', ''onsubmit'', ''pattern'', ''placeholder'', ''rowspan'',
    ''readonly'', ''rel'', ''required'', ''rows'', ''scope'', ''selected'', ''size'',
    ''src'', ''step'', ''target'', ''title'', ''type'', ''usemap'', ''value'', ''width'',
    ''wrap'']"

definition tagTypeStringMap :: "string list" where
  "tagTypeStringMap =
   [''a'', ''abbr'', ''address'', ''b'', ''blockquote'', ''body'', ''br'', ''button'',
    ''canvas'', ''caption'', ''cite'', ''code'', ''datalist'', ''dfn'', ''div'', ''dd'',
    ''dl'', ''dt'', ''em'', ''footer'', ''form'', ''h1'', ''h2'', ''h3'', ''h4'', ''h5'',
    ''h6'', ''head'', ''hr'', ''html'', ''i'', ''img'', ''input'', ''kbd'', ''label'',
    ''li'', ''link'', ''meta'', ''noscript'', ''ol'', ''option'', ''p'', ''pre'', ''samp'',
    ''script'', ''select'', ''small'', ''span'', ''strong'', ''style'', ''table'',
    ''tbody'', ''td'', ''textarea'', ''tfoot'', ''th'', ''thead'', ''title'', ''tr'', ''u'',
    ''ul'', ''var'']"

definition kAttrAction :: nat where "kAttrAction = 1"
definition kAttrAlt :: nat where "kAttrAlt = 2"
definition kAttrAutocomplete :: nat where "kAttrAutocomplete = 3"
definition kAttrChecked :: nat where "kAttrChecked = 7"
definition kAttrClass :: nat where "kAttrClass = 8"
definition kAttrDisabled :: nat where "kAttrDisabled = 12"
definition kAttrHeight :: nat where "kAttrHeight = 17"
definition kAttrId :: nat where "kAttrId = 21"
definition kAttrLabel :: nat where "kAttrLabel = 23"
definition kAttrMaxlength :: nat where "kAttrMaxlength = 26"
definition kAttrName :: nat where "kAttrName = 31"
definition kAttrOnload :: nat where "kAttrOnload = 37"
definition kAttrOnkeydown :: nat where "kAttrOnkeydown = 38"
definition kAttrReadonly :: nat where "kAttrReadonly = 51"
definition kAttrSelected :: nat where "kAttrSelected = 56"
definition kAttrSize :: nat where "kAttrSize = 57"
definition kAttrSrc :: nat where "kAttrSrc = 58"
definition kAttrTitle :: nat where "kAttrTitle = 61"
definition kAttrType :: nat where "kAttrType = 62"
definition kAttrValue :: nat where "kAttrValue = 64"
definition kAttrWidth :: nat where "kAttrWidth = 65"

definition kTagTypeBr :: nat where "kTagTypeBr = 6"
definition kTagTypeDiv :: nat where "kTagTypeDiv = 14"
definition kTagTypeHtml :: nat where "kTagTypeHtml = 29"
definition kTagTypeInput :: nat where "kTagTypeInput = 32"
definition kTagTypeOption :: nat where "kTagTypeOption = 40"
definition kTagTypeP :: nat where "kTagTypeP = 41"
definition kTagTypeSpan :: nat where "kTagTypeSpan = 47"
definition kTagTypeNull :: nat where "kTagTypeNull = 63"

definition kIndentSpace :: nat where "kIndentSpace = 2"

text \<open>Indexing a Go array panics when the index is out of range (\<open>None\<close>).\<close>

definition at_index :: "'a list \<Rightarrow> nat \<Rightarrow> 'a option" where
  "at_index xs i = (if i < length xs then Some (xs ! i) else None)"

section \<open>Go maps\<close>

text \<open>
  A Go map is an association list with distinct keys. \<open>range\<close> over a map visits the
  entries in an order the language leaves unspecified; the order of the list stands for
  the order one run happens to take, so a property of the program must hold for every
  list that represents the map. Reading a missing key gives the zero value, the empty
  string.
\<close>

type_synonym ('k, 'v) gomap = "('k \<times> 'v) list"

definition m_get :: "('k, string) gomap \<Rightarrow> 'k \<Rightarrow> string" where
  "m_get m k = (case map_of m k of None \<Rightarrow> [] | Some v \<Rightarrow> v)"

definition m_set :: "'k \<Rightarrow> 'v \<Rightarrow> ('k, 'v) gomap \<Rightarrow> ('k, 'v) gomap" where
  "m_set k v m = AList.update k v m"

definition m_delete :: "'k \<Rightarrow> ('k, 'v) gomap \<Rightarrow> ('k, 'v) gomap" where
  "m_delete k m = AList.delete k m"

section \<open>The fields of a tag (base\_tag.go)\<close>

text \<open>
  The fields of \<open>baseTag\<close> that rendering and the attribute operations read and write.
  The children and the parent link are kept by the structures that hold the node: the
  tree of the renderer and the object store further below.
\<close>

record baseTag =
  tagType :: nat
  attrs :: "(nat, string) gomap"
  customAttrs :: "(string, string) gomap"
  isCacheClean :: bool
  cacheOpen :: string
  hidden :: bool

definition newBaseTag :: "nat \<Rightarrow> baseTag" where
  "newBaseTag ty =
     \<lparr>tagType = ty, attrs = [], customAttrs = [], isCacheClean = False, cacheOpen = [],
      hidden = False\<rparr>"

section \<open>Writing attributes (htmlgen.go, base\_tag.go)\<close>

text \<open>A loop whose body is a sequence of writes: it stops at the first error or panic.\<close>

fun for_each :: "('a \<Rightarrow> nat \<Rightarrow> string \<Rightarrow> string \<times> result) \<Rightarrow> 'a list \<Rightarrow> nat \<Rightarrow> string \<Rightarrow> string \<times> result" where
  "for_each body [] n out = (out, Ok n)"
| "for_each body (x # xs) n out =
     (case body x n out of
        (out', Ok n') \<Rightarrow> for_each body xs n' out'
      | (out', Fail n') \<Rightarrow> (out', Fail n')
      | (out', Panic) \<Rightarrow> (out', Panic))"

definition writeKeyValue :: "policy \<Rightarrow> string \<Rightarrow> string \<Rightarrow> string \<Rightarrow> string \<times> result" where
  "writeKeyValue pol out key val =
     attempt 0 (io_WriteString pol out key) (\<lambda>out n.
     attempt n (io_WriteString pol out [CHR ''='', CHR 0x22]) (\<lambda>out n.
     attempt n (io_WriteString pol out val) (\<lambda>out n.
     attempt n (writeRune pol out (CHR 0x22)) (\<lambda>out n. (out, Ok n)))))"

definition writeKeyIdValue :: "policy \<Rightarrow> string \<Rightarrow> nat \<Rightarrow> string \<Rightarrow> string \<times> result" where
  "writeKeyIdValue pol out keyId val =
     (case at_index attrStringMap keyId of
        None \<Rightarrow> (out, Panic)
      | Some keyStr \<Rightarrow> writeKeyValue pol out keyStr val)"

text \<open>The bodies of the attribute loops: a space, then the attribute.\<close>

definition write_known :: "policy \<Rightarrow> nat \<times> string \<Rightarrow> nat \<Rightarrow> string \<Rightarrow> string \<times> result" where
  "write_known pol kv n out =
     attempt n (writeRune pol out CHR '' '') (\<lambda>out n.
     attempt n (writeKeyIdValue pol out (fst kv) (snd kv)) (\<lambda>out n. (out, Ok n)))"

definition write_custom :: "policy \<Rightarrow> string \<times> string \<Rightarrow> nat \<Rightarrow> string \<Rightarrow> string \<times> result" where
  "write_custom pol kv n out =
     attempt n (writeRune pol out CHR '' '') (\<lambda>out n.
     attempt n (writeKeyValue pol out (fst kv) (snd kv)) (\<lambda>out n. (out, Ok n)))"

definition writeOpenTagLead :: "policy \<Rightarrow> baseTag \<Rightarrow> string \<Rightarrow> string \<Rightarrow> string \<times> result" where
  "writeOpenTagLead pol t tagStr out =
     attempt 0 (writeRune pol out CHR ''<'') (\<lambda>out n.
     attempt n (io_WriteString pol out tagStr) (\<lambda>out n.
       case for_each (write_known pol) (attrs t) n out of
         (out, Ok n) \<Rightarrow> for_each (write_custom pol) (customAttrs t) n out
       | r \<Rightarrow> r))"

text \<open>
  The merge of the known attributes, by name, and of the custom attributes into one map,
  with the list of the keys met; \<open>attrStringMap[keyId]\<close> panics out of range.
\<close>

fun mergeKnown :: "(nat, string) gomap \<Rightarrow> (string, string) gomap \<Rightarrow> string list \<Rightarrow> ((string, string) gomap \<times> string list) option" where
  "mergeKnown [] merged sortedKeys = Some (merged, sortedKeys)"
| "mergeKnown ((keyId, v) # kvs) merged sortedKeys =
     (case at_index attrStringMap keyId of
        None \<Rightarrow> None
      | Some key \<Rightarrow> mergeKnown kvs (m_set key v merged) (sortedKeys @ [key]))"

fun mergeCustom :: "(string, string) gomap \<Rightarrow> (string, string) gomap \<Rightarrow> string list \<Rightarrow> (string, string) gomap \<times> string list" where
  "mergeCustom [] merged sortedKeys = (merged, sortedKeys)"
| "mergeCustom ((k, v) # kvs) merged sortedKeys =
     mergeCustom kvs (m_set k v merged) (sortedKeys @ [k])"

text \<open>
  The attributes of \<open>writeOpenTagLeadSorted\<close>, after the tag name: without custom
  attributes the identifiers are sorted by \<open>sort.Ints\<close>, otherwise the names of the merged
  map by \<open>sort.Strings\<close> (bytewise lexicographic).
\<close>

definition write_sorted_attrs :: "policy \<Rightarrow> baseTag \<Rightarrow> nat \<Rightarrow> string \<Rightarrow> string \<times> result" where
  "write_sorted_attrs pol t n out =
     (if length (customAttrs t) = 0 then
        for_each (\<lambda>key. write_known pol (key, m_get (attrs t) key))
          (sort (map fst (attrs t))) n out
      else
        (case mergeKnown (attrs t) [] [] of
           None \<Rightarrow> (out, Panic)
         | Some (merged, sortedKeys) \<Rightarrow>
             (case mergeCustom (customAttrs t) merged sortedKeys of
                (merged, sortedKeys) \<Rightarrow>
                  for_each (\<lambda>key. write_custom pol (key, m_get merged key))
                    (sort sortedKeys) n out)))"

definition writeOpenTagLeadSorted :: "policy \<Rightarrow> baseTag \<Rightarrow> string \<Rightarrow> string \<Rightarrow> string \<times> result" where
  "writeOpenTagLeadSorted pol t tagStr out =
     attempt 0 (writeRune pol out CHR ''<'') (\<lambda>out n.
     attempt n (io_WriteString pol out tagStr) (\<lambda>out n.
       write_sorted_attrs pol t n out))"

text \<open>
  A Go function returning \<open>(result, err)\<close>: the result with no error, the result with an
  error, or a panic.
\<close>

datatype 'a outcome = Returns 'a | Errors 'a | Panics

text \<open>\<open>renderCacheOpen\<close> renders the open tag into a fresh \<open>bytes.Buffer\<close>.\<close>

definition baseTag_renderCacheOpen :: "baseTag \<Rightarrow> string \<Rightarrow> string outcome" where
  "baseTag_renderCacheOpen t tagStr =
     (case writeOpenTagLead buffer t tagStr [] of
        (tmp, Ok n) \<Rightarrow>
          (case writeRune buffer tmp CHR ''>'' of
             (tmp, Ok n) \<Rightarrow> Returns tmp
           | (tmp, Fail n) \<Rightarrow> Errors []
           | (tmp, Panic) \<Rightarrow> Panics)
      | (tmp, Fail n) \<Rightarrow> Errors []
      | (tmp, Panic) \<Rightarrow> Panics)"

definition singleTag_renderCacheOpen :: "baseTag \<Rightarrow> string \<Rightarrow> string outcome" where
  "singleTag_renderCacheOpen t tagStr =
     (case writeOpenTagLead buffer t tagStr [] of
        (tmp, Ok n) \<Rightarrow>
          (case io_WriteString buffer tmp '' />'' of
             (tmp, Ok n) \<Rightarrow> Returns tmp
           | (tmp, Fail n) \<Rightarrow> Errors []
           | (tmp, Panic) \<Rightarrow> Panics)
      | (tmp, Fail n) \<Rightarrow> Errors []
      | (tmp, Panic) \<Rightarrow> Panics)"

text \<open>
  The statement \<open>if !t.isCacheClean { if t.cacheOpen, err = t.renderCacheOpen(tagStr); err != nil
  { return }; t.isCacheClean = true }\<close> of the compact writers.
\<close>

definition refreshCache :: "(baseTag \<Rightarrow> string \<Rightarrow> string outcome) \<Rightarrow> baseTag \<Rightarrow> string \<Rightarrow> baseTag outcome" where
  "refreshCache render t tagStr =
     (if \<not> isCacheClean t then
        (case render t tagStr of
           Returns s \<Rightarrow> Returns (t\<lparr>cacheOpen := s, isCacheClean := True\<rparr>)
         | Errors s \<Rightarrow> Errors (t\<lparr>cacheOpen := s\<rparr>)
         | Panics \<Rightarrow> Panics)
      else Returns t)"


section \<open>Attribute and class operations (base\_tag.go, tag.go)\<close>

text \<open>\<open>strings.Join\<close>.\<close>

fun Join :: "string list \<Rightarrow> string \<Rightarrow> string" where
  "Join [] sep = []"
| "Join [x] sep = x"
| "Join (x # y # ys) sep = x @ sep @ Join (y # ys) sep"

definition setAttr :: "nat \<Rightarrow> string \<Rightarrow> baseTag \<Rightarrow> baseTag" where
  "setAttr keyId val t =
     (if length val = 0 then t\<lparr>attrs := m_delete keyId (attrs t), isCacheClean := False\<rparr>
      else t\<lparr>attrs := m_set keyId val (attrs t), isCacheClean := False\<rparr>)"

definition SetId :: "string \<Rightarrow> baseTag \<Rightarrow> baseTag" where
  "SetId ident t = setAttr kAttrId ident t"

definition SetTitle :: "string \<Rightarrow> baseTag \<Rightarrow> baseTag" where
  "SetTitle title t = setAttr kAttrTitle title t"

definition BodyTag_SetOnload :: "string \<Rightarrow> baseTag \<Rightarrow> baseTag" where
  "BodyTag_SetOnload script t = setAttr kAttrOnload script t"

definition SetAttribute :: "string \<Rightarrow> string \<Rightarrow> baseTag \<Rightarrow> baseTag" where
  "SetAttribute key val t = t\<lparr>customAttrs := m_set key val (customAttrs t), isCacheClean := False\<rparr>"

definition SetAttributes :: "(string, string) gomap \<Rightarrow> baseTag \<Rightarrow> baseTag" where
  "SetAttributes kvs t =
     t\<lparr>customAttrs := fold (\<lambda>kv m. m_set (fst kv) (snd kv) m) kvs (customAttrs t),
       isCacheClean := False\<rparr>"

definition RemoveAttribute :: "string \<Rightarrow> baseTag \<Rightarrow> baseTag" where
  "RemoveAttribute key t = t\<lparr>customAttrs := m_delete key (customAttrs t), isCacheClean := False\<rparr>"

definition RemoveAttributes :: "string list \<Rightarrow> baseTag \<Rightarrow> baseTag" where
  "RemoveAttributes keys t =
     t\<lparr>customAttrs := fold m_delete keys (customAttrs t), isCacheClean := False\<rparr>"

definition SetClasses :: "string list \<Rightarrow> baseTag \<Rightarrow> baseTag" where
  "SetClasses classes t =
     (if length classes = 0 then t\<lparr>attrs := m_delete kAttrClass (attrs t), isCacheClean := False\<rparr>
      else t\<lparr>attrs := m_set kAttrClass (Join classes '' '') (attrs t), isCacheClean := False\<rparr>)"

text \<open>\<open>AddClasses\<close> returns at once, changing nothing, when no class is given.\<close>

definition AddClasses :: "string list \<Rightarrow> baseTag \<Rightarrow> baseTag" where
  "AddClasses classes t =
     (if length classes = 0 then t
      else
        (let classesStr = Join classes '' '';
             oldClassesStr = m_get (attrs t) kAttrClass
         in if length oldClassesStr > 0
            then t\<lparr>attrs := m_set kAttrClass (oldClassesStr @ '' '' @ classesStr) (attrs t),
                   isCacheClean := False\<rparr>
            else t\<lparr>attrs := m_set kAttrClass classesStr (attrs t), isCacheClean := False\<rparr>))"

definition Hide :: "bool \<Rightarrow> baseTag \<Rightarrow> baseTag" where
  "Hide isHidden t = t\<lparr>hidden := isHidden\<rparr>"

definition CheckedInputTag_SetChecked :: "bool \<Rightarrow> baseTag \<Rightarrow> baseTag" where
  "CheckedInputTag_SetChecked checked t =
     (if checked then t\<lparr>attrs := m_set kAttrChecked [] (attrs t), isCacheClean := False\<rparr>
      else t\<lparr>attrs := m_delete kAttrChecked (attrs t), isCacheClean := False\<rparr>)"

definition InputTag_SetValue :: "string \<Rightarrow> baseTag \<Rightarrow> baseTag" where
  "InputTag_SetValue v t =
     (if length v = 0 then t\<lparr>attrs := m_delete kAttrValue (attrs t), isCacheClean := False\<rparr>
      else t\<lparr>attrs := m_set kAttrValue v (attrs t), isCacheClean := False\<rparr>)"

text \<open>\<open>ResetOptions\<close> of an input tag deletes twelve attributes and does nothing else.\<close>

definition InputTag_ResetOptions :: "baseTag \<Rightarrow> baseTag" where
  "InputTag_ResetOptions t =
     t\<lparr>attrs := fold m_delete
        [kAttrAction, kAttrAlt, kAttrAutocomplete, kAttrChecked, kAttrDisabled, kAttrHeight,
         kAttrMaxlength, kAttrReadonly, kAttrSize, kAttrSrc, kAttrValue, kAttrWidth] (attrs t)\<rparr>"

record OptionOptions =
  oDisabled :: bool
  oLabel :: string
  oSelected :: bool
  oValue :: string

definition OptionTag_ResetOptions :: "baseTag \<Rightarrow> baseTag" where
  "OptionTag_ResetOptions t =
     t\<lparr>attrs := fold m_delete [kAttrDisabled, kAttrLabel, kAttrSelected, kAttrValue] (attrs t)\<rparr>"

definition OptionTag_SetOptions :: "OptionOptions \<Rightarrow> baseTag \<Rightarrow> baseTag" where
  "OptionTag_SetOptions opts t =
     (let a1 = (if oDisabled opts then m_set kAttrDisabled [] (attrs t) else attrs t);
          a2 = (if length (oLabel opts) > 0 then m_set kAttrLabel (oLabel opts) a1 else a1);
          a3 = (if oSelected opts then m_set kAttrSelected [] a2 else a2);
          a4 = (if length (oValue opts) > 0 then m_set kAttrValue (oValue opts) a3 else a3)
      in t\<lparr>attrs := a4, isCacheClean := False\<rparr>)"

definition OptionTag_SetSelected :: "bool \<Rightarrow> baseTag \<Rightarrow> baseTag" where
  "OptionTag_SetSelected selected t =
     (if \<not> selected then t\<lparr>attrs := m_delete kAttrSelected (attrs t), isCacheClean := False\<rparr>
      else t\<lparr>attrs := m_set kAttrSelected [] (attrs t), isCacheClean := False\<rparr>)"

text \<open>
  The factories of htmlgen.go used below: an input tag is a self-closing tag whose type,
  name and value attributes are set when they are not empty; a fresh tag has a dirty cache.
\<close>

definition InputTypeNameValue :: "string \<Rightarrow> string \<Rightarrow> string \<Rightarrow> baseTag" where
  "InputTypeNameValue inputType name val =
     (let t = newBaseTag kTagTypeInput;
          t1 = (if length inputType > 0 then t\<lparr>attrs := m_set kAttrType inputType (attrs t)\<rparr> else t);
          t2 = (if length name > 0 then t1\<lparr>attrs := m_set kAttrName name (attrs t1)\<rparr> else t1)
      in if length val > 0 then t2\<lparr>attrs := m_set kAttrValue val (attrs t2)\<rparr> else t2)"


section \<open>The tree of writers and compact rendering (base\_tag.go, tag.go)\<close>

text \<open>
  The types that implement \<open>tagWriter\<close>: the tags, which embed \<open>baseTag\<close> and differ in
  their \<open>write\<close> and \<open>writePretty\<close> methods (\<open>baseTag\<close> itself and the types that inherit
  its writers, \<open>singleTag\<close>, \<open>commentTag\<close>, \<open>htmlTag\<close>, \<open>nullTag\<close>), the text leaf
  \<open>TextTag\<close> and the variable text leaf \<open>TextTagVar\<close>. A tag holds its children.
\<close>

datatype kind = baseTagK | singleTagK | commentTagK | htmlTagK | nullTagK

datatype tagWriter =
    Tag kind baseTag "tagWriter list"
  | Text string
  | TextVar TextTagVar

fun isHidden :: "tagWriter \<Rightarrow> bool" where
  "isHidden (Tag k t cs) = hidden t"
| "isHidden (Text s) = False"
| "isHidden (TextVar v) = False"

text \<open>The three writes of the closing tag at the end of \<open>baseTag.write\<close>.\<close>

definition write_close :: "policy \<Rightarrow> string \<Rightarrow> nat \<Rightarrow> string \<Rightarrow> string \<times> result" where
  "write_close pol tagStr n out =
     attempt n (io_WriteString pol out ''</'') (\<lambda>out n.
     attempt n (io_WriteString pol out tagStr) (\<lambda>out n.
     attempt n (writeRune pol out CHR ''>'') (\<lambda>out n. (out, Ok n))))"

text \<open>
  \<open>singleTag.write\<close>: no test of \<open>hidden\<close>; the cache is rebuilt when dirty and the cached
  tag is written, the count and the error of that one write being returned as they are.
\<close>

definition singleTag_write :: "policy \<Rightarrow> baseTag \<Rightarrow> string \<Rightarrow> baseTag \<times> string \<times> result" where
  "singleTag_write pol t out =
     (case at_index tagTypeStringMap (tagType t) of
        None \<Rightarrow> (t, out, Panic)
      | Some tagStr \<Rightarrow>
          (case refreshCache singleTag_renderCacheOpen t tagStr of
             Returns t1 \<Rightarrow> (t1, io_WriteString pol out (cacheOpen t1))
           | Errors t1 \<Rightarrow> (t1, out, Fail 0)
           | Panics \<Rightarrow> (t, out, Panic)))"

text \<open>
  The compact writers. They return the tree with the caches they have filled, the sink
  and the result. \<open>write_children\<close> is the loop over \<open>t.children\<close>, entered with the
  count \<open>n\<close> of its caller; \<open>baseTag_write\<close> is \<open>baseTag.write\<close>, which \<open>htmlTag.write\<close>
  calls on its embedded \<open>baseTag\<close>.
\<close>

fun tagWriter_write :: "policy \<Rightarrow> Environment \<Rightarrow> tagWriter \<Rightarrow> string \<Rightarrow> tagWriter \<times> string \<times> result"
  and baseTag_write :: "policy \<Rightarrow> Environment \<Rightarrow> baseTag \<Rightarrow> tagWriter list \<Rightarrow> string \<Rightarrow> (baseTag \<times> tagWriter list) \<times> string \<times> result"
  and write_children :: "policy \<Rightarrow> Environment \<Rightarrow> tagWriter list \<Rightarrow> nat \<Rightarrow> string \<Rightarrow> tagWriter list \<times> string \<times> result"
where
  "tagWriter_write pol env (Text s) out = (Text s, io_WriteString pol out s)"
| "tagWriter_write pol env (TextVar v) out = (TextVar v, TextTagVar_write pol out v env)"
| "tagWriter_write pol env (Tag baseTagK t cs) out =
     (case baseTag_write pol env t cs out of ((t', cs'), r) \<Rightarrow> (Tag baseTagK t' cs', r))"
| "tagWriter_write pol env (Tag singleTagK t cs) out =
     (case singleTag_write pol t out of (t', r) \<Rightarrow> (Tag singleTagK t' cs, r))"
| "tagWriter_write pol env (Tag commentTagK t cs) out =
     (case io_WriteString pol out ''<!-- '' of
        (out1, Ok cnt) \<Rightarrow>
          (case write_children pol env cs cnt out1 of
             (cs', out2, Ok n) \<Rightarrow>
               (Tag commentTagK t cs',
                attempt n (io_WriteString pol out2 '' -->'') (\<lambda>out n. (out, Ok n)))
           | (cs', out2, Fail n) \<Rightarrow> (Tag commentTagK t cs', out2, Fail n)
           | (cs', out2, Panic) \<Rightarrow> (Tag commentTagK t cs', out2, Panic))
      | (out1, Fail cnt) \<Rightarrow> (Tag commentTagK t cs, out1, Fail 0)
      | (out1, Panic) \<Rightarrow> (Tag commentTagK t cs, out1, Panic))"
| "tagWriter_write pol env (Tag htmlTagK t cs) out =
     (case io_WriteString pol out ''<!DOCTYPE html>'' of
        (out1, Ok cnt) \<Rightarrow>
          (case baseTag_write pol env t cs out1 of
             ((t', cs'), out2, Ok cnt2) \<Rightarrow> (Tag htmlTagK t' cs', out2, Ok (cnt + cnt2))
           | ((t', cs'), out2, Fail cnt2) \<Rightarrow> (Tag htmlTagK t' cs', out2, Fail cnt)
           | ((t', cs'), out2, Panic) \<Rightarrow> (Tag htmlTagK t' cs', out2, Panic))
      | (out1, Fail cnt) \<Rightarrow> (Tag htmlTagK t cs, out1, Fail 0)
      | (out1, Panic) \<Rightarrow> (Tag htmlTagK t cs, out1, Panic))"
| "tagWriter_write pol env (Tag nullTagK t cs) out =
     (case write_children pol env cs 0 out of (cs', r) \<Rightarrow> (Tag nullTagK t cs', r))"
| "baseTag_write pol env t cs out =
     (if hidden t then ((t, cs), out, Ok 0)
      else
        (case at_index tagTypeStringMap (tagType t) of
           None \<Rightarrow> ((t, cs), out, Panic)
         | Some tagStr \<Rightarrow>
             (case refreshCache baseTag_renderCacheOpen t tagStr of
                Returns t1 \<Rightarrow>
                  (case io_WriteString pol out (cacheOpen t1) of
                     (out1, Ok cnt) \<Rightarrow>
                       (case write_children pol env cs cnt out1 of
                          (cs', out2, Ok n) \<Rightarrow> ((t1, cs'), write_close pol tagStr n out2)
                        | (cs', out2, Fail n) \<Rightarrow> ((t1, cs'), out2, Fail n)
                        | (cs', out2, Panic) \<Rightarrow> ((t1, cs'), out2, Panic))
                   | (out1, Fail cnt) \<Rightarrow> ((t1, cs), out1, Fail 0)
                   | (out1, Panic) \<Rightarrow> ((t1, cs), out1, Panic))
              | Errors t1 \<Rightarrow> ((t1, cs), out, Fail 0)
              | Panics \<Rightarrow> ((t, cs), out, Panic))))"
| "write_children pol env [] n out = ([], out, Ok n)"
| "write_children pol env (c # cs) n out =
     (case tagWriter_write pol env c out of
        (c', out1, Ok cnt) \<Rightarrow>
          (case write_children pol env cs (n + cnt) out1 of (cs', r) \<Rightarrow> (c' # cs', r))
      | (c', out1, Fail cnt) \<Rightarrow> (c' # cs, out1, Fail n)
      | (c', out1, Panic) \<Rightarrow> (c' # cs, out1, Panic))"

text \<open>\<open>Write\<close> of htmlgen.go.\<close>

definition Write :: "policy \<Rightarrow> string \<Rightarrow> tagWriter \<Rightarrow> Environment \<Rightarrow> tagWriter \<times> string \<times> result" where
  "Write pol out root env = tagWriter_write pol env root out"


section \<open>Pretty rendering (base\_tag.go, tag.go)\<close>

definition newline :: char where
  "newline = CHR 0x0A"

text \<open>The writes of \<open>baseTag.writePretty\<close> before and after the loop over the children.\<close>

definition pretty_open :: "policy \<Rightarrow> baseTag \<Rightarrow> string \<Rightarrow> nat \<Rightarrow> string \<Rightarrow> string \<times> result" where
  "pretty_open pol t tagStr indent out =
     attempt 0 (writeIndent pol out indent) (\<lambda>out n.
     attempt n (writeOpenTagLeadSorted pol t tagStr out) (\<lambda>out n.
     attempt n (writeRune pol out CHR ''>'') (\<lambda>out n. (out, Ok n))))"

definition pretty_close :: "policy \<Rightarrow> string \<Rightarrow> nat \<Rightarrow> nat \<Rightarrow> nat \<Rightarrow> string \<Rightarrow> string \<times> result" where
  "pretty_close pol tagStr indent numChildren n out =
     (if numChildren > 0 then
        attempt n (writeRune pol out newline) (\<lambda>out n.
        attempt n (writeIndent pol out indent) (\<lambda>out n.
        attempt n (io_WriteString pol out (''</'' @ tagStr @ ''>'')) (\<lambda>out n. (out, Ok n))))
      else
        attempt n (io_WriteString pol out (''</'' @ tagStr @ ''>'')) (\<lambda>out n. (out, Ok n)))"

text \<open>\<open>singleTag.writePretty\<close>: no test of \<open>hidden\<close>.\<close>

definition singleTag_writePretty :: "policy \<Rightarrow> nat \<Rightarrow> baseTag \<Rightarrow> string \<Rightarrow> string \<times> result" where
  "singleTag_writePretty pol indent t out =
     attempt 0 (writeIndent pol out indent) (\<lambda>out n.
       case at_index tagTypeStringMap (tagType t) of
         None \<Rightarrow> (out, Panic)
       | Some tagStr \<Rightarrow>
           attempt n (writeOpenTagLeadSorted pol t tagStr out) (\<lambda>out n.
           attempt n (io_WriteString pol out '' />'') (\<lambda>out n. (out, Ok n))))"

text \<open>The writes of \<open>commentTag.writePretty\<close> after the loop over the children.\<close>

definition comment_close :: "policy \<Rightarrow> nat \<Rightarrow> nat \<Rightarrow> nat \<Rightarrow> string \<Rightarrow> string \<times> result" where
  "comment_close pol indent numChildren n out =
     (if numChildren > 0 then
        attempt n (writeRune pol out newline) (\<lambda>out n.
        attempt n (writeIndent pol out indent) (\<lambda>out n.
        attempt n (io_WriteString pol out ''-->'') (\<lambda>out n. (out, Ok n))))
      else
        attempt n (writeRune pol out CHR '' '') (\<lambda>out n.
        attempt n (io_WriteString pol out ''-->'') (\<lambda>out n. (out, Ok n))))"

text \<open>
  The pretty writers; they do not touch the caches. \<open>pretty_children\<close> is the loop of
  \<open>baseTag.writePretty\<close>, which skips the hidden children; \<open>comment_children\<close> the loop of
  \<open>commentTag.writePretty\<close>, which does not; \<open>null_children\<close> the loop of
  \<open>nullTag.writePretty\<close>, with a newline after every child but the last.
\<close>

function (sequential) tagWriter_writePretty :: "policy \<Rightarrow> Environment \<Rightarrow> nat \<Rightarrow> tagWriter \<Rightarrow> string \<Rightarrow> string \<times> result"
  and baseTag_writePretty :: "policy \<Rightarrow> Environment \<Rightarrow> nat \<Rightarrow> baseTag \<Rightarrow> tagWriter list \<Rightarrow> string \<Rightarrow> string \<times> result"
  and pretty_children :: "policy \<Rightarrow> Environment \<Rightarrow> nat \<Rightarrow> tagWriter list \<Rightarrow> nat \<Rightarrow> string \<Rightarrow> string \<times> result"
  and comment_children :: "policy \<Rightarrow> Environment \<Rightarrow> nat \<Rightarrow> tagWriter list \<Rightarrow> nat \<Rightarrow> string \<Rightarrow> string \<times> result"
  and null_children :: "policy \<Rightarrow> Environment \<Rightarrow> tagWriter list \<Rightarrow> nat \<Rightarrow> string \<Rightarrow> string \<times> result"
where
  "tagWriter_writePretty pol env indent (Text s) out =
     attempt 0 (writeIndent pol out indent) (\<lambda>out n.
     attempt n (io_WriteString pol out s) (\<lambda>out n. (out, Ok n)))"
| "tagWriter_writePretty pol env indent (TextVar v) out =
     attempt 0 (writeIndent pol out indent) (\<lambda>out n.
     attempt n (TextTagVar_write pol out v env) (\<lambda>out n. (out, Ok n)))"
| "tagWriter_writePretty pol env indent (Tag baseTagK t cs) out =
     baseTag_writePretty pol env indent t cs out"
| "tagWriter_writePretty pol env indent (Tag singleTagK t cs) out =
     singleTag_writePretty pol indent t out"
| "tagWriter_writePretty pol env indent (Tag commentTagK t cs) out =
     (case attempt 0 (writeIndent pol out indent) (\<lambda>out n.
           attempt n (io_WriteString pol out ''<!--'') (\<lambda>out n. (out, Ok n))) of
        (out1, Ok n) \<Rightarrow>
          (case comment_children pol env (indent + kIndentSpace) cs n out1 of
             (out2, Ok n) \<Rightarrow> comment_close pol indent (length cs) n out2
           | (out2, Fail n) \<Rightarrow> (out2, Fail n)
           | (out2, Panic) \<Rightarrow> (out2, Panic))
      | (out1, Fail n) \<Rightarrow> (out1, Fail n)
      | (out1, Panic) \<Rightarrow> (out1, Panic))"
| "tagWriter_writePretty pol env indent (Tag htmlTagK t cs) out =
     (case attempt 0 (writeIndent pol out indent) (\<lambda>out n.
           attempt n (io_WriteString pol out (''<!DOCTYPE html>'' @ [newline])) (\<lambda>out n. (out, Ok n))) of
        (out1, Ok n) \<Rightarrow>
          (case baseTag_writePretty pol env indent t cs out1 of
             (out2, Ok cnt) \<Rightarrow> (out2, Ok (n + cnt))
           | (out2, Fail cnt) \<Rightarrow> (out2, Fail n)
           | (out2, Panic) \<Rightarrow> (out2, Panic))
      | (out1, Fail n) \<Rightarrow> (out1, Fail n)
      | (out1, Panic) \<Rightarrow> (out1, Panic))"
| "tagWriter_writePretty pol env indent (Tag nullTagK t cs) out =
     null_children pol env cs 0 out"
| "baseTag_writePretty pol env indent t cs out =
     (if hidden t then (out, Ok 0)
      else
        (case at_index tagTypeStringMap (tagType t) of
           None \<Rightarrow> (out, Panic)
         | Some tagStr \<Rightarrow>
             (case pretty_open pol t tagStr indent out of
                (out1, Ok n) \<Rightarrow>
                  (case pretty_children pol env (indent + kIndentSpace) cs n out1 of
                     (out2, Ok n) \<Rightarrow> pretty_close pol tagStr indent (length cs) n out2
                   | (out2, Fail n) \<Rightarrow> (out2, Fail n)
                   | (out2, Panic) \<Rightarrow> (out2, Panic))
              | (out1, Fail n) \<Rightarrow> (out1, Fail n)
              | (out1, Panic) \<Rightarrow> (out1, Panic))))"
| "pretty_children pol env newIndent [] n out = (out, Ok n)"
| "pretty_children pol env newIndent (c # cs) n out =
     (if isHidden c then pretty_children pol env newIndent cs n out
      else
        (case writeRune pol out newline of
           (out1, Ok cnt) \<Rightarrow>
             (case tagWriter_writePretty pol env newIndent c out1 of
                (out2, Ok cnt2) \<Rightarrow> pretty_children pol env newIndent cs (n + cnt + cnt2) out2
              | (out2, Fail cnt2) \<Rightarrow> (out2, Fail (n + cnt))
              | (out2, Panic) \<Rightarrow> (out2, Panic))
         | (out1, Fail cnt) \<Rightarrow> (out1, Fail n)
         | (out1, Panic) \<Rightarrow> (out1, Panic)))"
| "comment_children pol env newIndent [] n out = (out, Ok n)"
| "comment_children pol env newIndent (c # cs) n out =
     (case writeRune pol out newline of
        (out1, Ok cnt) \<Rightarrow>
          (case tagWriter_writePretty pol env newIndent c out1 of
             (out2, Ok cnt2) \<Rightarrow> comment_children pol env newIndent cs (n + cnt + cnt2) out2
           | (out2, Fail cnt2) \<Rightarrow> (out2, Fail (n + cnt))
           | (out2, Panic) \<Rightarrow> (out2, Panic))
      | (out1, Fail cnt) \<Rightarrow> (out1, Fail n)
      | (out1, Panic) \<Rightarrow> (out1, Panic))"
| "null_children pol env [] n out = (out, Ok n)"
| "null_children pol env (c # cs) n out =
     (case tagWriter_writePretty pol env 0 c out of
        (out1, Ok cnt) \<Rightarrow>
          (if cs = [] then (out1, Ok (n + cnt))
           else
             (case writeRune pol out1 newline of
                (out2, Ok cnt2) \<Rightarrow> null_children pol env cs (n + cnt + cnt2) out2
              | (out2, Fail cnt2) \<Rightarrow> (out2, Fail (n + cnt))
              | (out2, Panic) \<Rightarrow> (out2, Panic)))
      | (out1, Fail cnt) \<Rightarrow> (out1, Fail n)
      | (out1, Panic) \<Rightarrow> (out1, Panic))"

  by pat_completeness auto
termination
  by (relation "measure
        (case_sum
          (case_sum (\<lambda>(pol, env, indent, node, out). 2 * size node)
                    (\<lambda>(pol, env, indent, t, cs, out). 2 * size_list size cs + 1))
          (case_sum (\<lambda>(pol, env, newIndent, cs, n, out). 2 * size_list size cs)
            (case_sum (\<lambda>(pol, env, newIndent, cs, n, out). 2 * size_list size cs)
                      (\<lambda>(pol, env, cs, n, out). 2 * size_list size cs))))") auto

text \<open>\<open>WritePretty\<close> of htmlgen.go.\<close>

definition WritePretty :: "policy \<Rightarrow> string \<Rightarrow> tagWriter \<Rightarrow> Environment \<Rightarrow> string \<times> result" where
  "WritePretty pol out root env = tagWriter_writePretty pol env 0 root out"


section \<open>The attribute order of the pretty rendering as the specification words it\<close>

text \<open>
  An attribute is written as a space, the name, \<open>="\<close>, the value and \<open>"\<close>. Without custom
  attributes the known attributes come sorted by their integer identifier; otherwise the
  names of the known and of the custom attributes are sorted lexicographically, and each
  name is written with the value the merged mapping gives it, a custom attribute taking
  precedence over a known attribute of the same name.
\<close>

definition spec_attr_text :: "string \<times> string \<Rightarrow> string" where
  "spec_attr_text kv = '' '' @ fst kv @ [CHR ''='', CHR 0x22] @ snd kv @ [CHR 0x22]"






section \<open>The object store: children, parents and attribute maps by reference\<close>

text \<open>
  Tags are used through pointers, and their attribute maps are references: two tags that
  held the same map would see each other's writes. The store maps addresses to objects
  and to maps; \<open>next_addr\<close> is the next fresh address. A tag object has the fields of
  \<open>baseTag\<close>, its maps and children as addresses, and the dynamic type that embeds it; a
  text object is a \<open>TextTag\<close>. The absent parent (a nil interface or a nil pointer) is
  \<open>None\<close>.
\<close>

type_synonym addr = nat

record tagObj =
  okind :: kind
  otagType :: nat
  oattrs :: addr
  ocustomAttrs :: addr
  ochildren :: "addr list"
  oparent :: "addr option"
  oisCacheClean :: bool
  ocacheOpen :: string
  ohidden :: bool

record textObj =
  xparent :: "addr option"
  xtext :: string

datatype cell = TagCell tagObj | TextCell textObj

record store =
  cells :: "addr \<rightharpoonup> cell"
  imaps :: "addr \<rightharpoonup> (nat, string) gomap"
  smaps :: "addr \<rightharpoonup> (string, string) gomap"
  next_addr :: addr

definition empty_store :: store where
  "empty_store = \<lparr>cells = Map.empty, imaps = Map.empty, smaps = Map.empty, next_addr = 0\<rparr>"

definition tag_at :: "store \<Rightarrow> addr \<Rightarrow> tagObj option" where
  "tag_at h a = (case cells h a of Some (TagCell obj) \<Rightarrow> Some obj | _ \<Rightarrow> None)"

definition text_at :: "store \<Rightarrow> addr \<Rightarrow> textObj option" where
  "text_at h a = (case cells h a of Some (TextCell x) \<Rightarrow> Some x | _ \<Rightarrow> None)"


text \<open>
  \<open>newBaseTag\<close>, \<open>newSingleTag\<close> and \<open>NewRoot\<close>: two fresh maps and a fresh object of the
  given dynamic type, with no children, no parent, a dirty cache, not hidden.
\<close>

definition alloc_tag :: "kind \<Rightarrow> nat \<Rightarrow> store \<Rightarrow> store \<times> addr" where
  "alloc_tag k ty h =
     (let n = next_addr h in
      (h\<lparr>cells := (cells h)(n + 2 \<mapsto> TagCell
            \<lparr>okind = k, otagType = ty, oattrs = n, ocustomAttrs = n + 1, ochildren = [],
             oparent = None, oisCacheClean = False, ocacheOpen = [], ohidden = False\<rparr>),
         imaps := (imaps h)(n \<mapsto> []),
         smaps := (smaps h)(n + 1 \<mapsto> []),
         next_addr := n + 3\<rparr>, n + 2))"

definition Div :: "store \<Rightarrow> store \<times> addr" where
  "Div h = alloc_tag baseTagK kTagTypeDiv h"

definition Br :: "store \<Rightarrow> store \<times> addr" where
  "Br h = alloc_tag singleTagK kTagTypeBr h"

definition NewRoot :: "store \<Rightarrow> store \<times> addr" where
  "NewRoot h = alloc_tag htmlTagK kTagTypeHtml h"

text \<open>
  \<open>htmlGen.T\<close>: a fresh text object holding the escaped text, without parent.
\<close>

definition alloc_text :: "string \<Rightarrow> store \<Rightarrow> store \<times> addr" where
  "alloc_text s h =
     (let n = next_addr h in
      (h\<lparr>cells := (cells h)(n \<mapsto> TextCell \<lparr>xparent = None, xtext = s\<rparr>), next_addr := n + 1\<rparr>, n))"

subsection \<open>Attaching and detaching (base\_tag.go)\<close>

text \<open>
  The operations return \<open>None\<close> when they panic, which they do when the receiver or an
  object they call a method on is nil. \<open>baseTag.AddChild\<close> appends to \<open>t.children\<close> and
  does nothing else; the function \<open>addChild\<close>, which the factory methods such as \<open>Div()\<close>
  use, appends and calls \<open>setParent\<close>.
\<close>

definition append_child :: "store \<Rightarrow> addr \<Rightarrow> addr \<Rightarrow> store option" where
  "append_child h t c =
     (case tag_at h t of
        None \<Rightarrow> None
      | Some obj \<Rightarrow> Some (h\<lparr>cells := (cells h)(t \<mapsto> TagCell (obj\<lparr>ochildren := ochildren obj @ [c]\<rparr>))\<rparr>))"

definition setParent :: "store \<Rightarrow> addr \<Rightarrow> addr option \<Rightarrow> store option" where
  "setParent h c p =
     (case tag_at h c of
        None \<Rightarrow> None
      | Some obj \<Rightarrow> Some (h\<lparr>cells := (cells h)(c \<mapsto> TagCell (obj\<lparr>oparent := p\<rparr>))\<rparr>))"

definition AddChild :: "store \<Rightarrow> addr \<Rightarrow> addr \<Rightarrow> store option" where
  "AddChild h t newTag = append_child h t newTag"

definition AddChildText :: "store \<Rightarrow> addr \<Rightarrow> addr \<Rightarrow> store option" where
  "AddChildText h t tag = append_child h t tag"

definition addChild :: "store \<Rightarrow> addr \<Rightarrow> addr \<Rightarrow> store option" where
  "addChild h t newTag =
     (case append_child h t newTag of
        None \<Rightarrow> None
      | Some h1 \<Rightarrow> setParent h1 newTag (Some t))"

text \<open>The factory methods \<open>t.Div()\<close> and \<open>t.Br()\<close> of a tag, and \<open>t.T(text)\<close>.\<close>

definition baseTag_Div :: "store \<Rightarrow> addr \<Rightarrow> (store \<times> addr) option" where
  "baseTag_Div h t =
     (case Div h of (h1, c) \<Rightarrow> (case addChild h1 t c of None \<Rightarrow> None | Some h2 \<Rightarrow> Some (h2, c)))"

definition baseTag_Br :: "store \<Rightarrow> addr \<Rightarrow> (store \<times> addr) option" where
  "baseTag_Br h t =
     (case Br h of (h1, c) \<Rightarrow> (case addChild h1 t c of None \<Rightarrow> None | Some h2 \<Rightarrow> Some (h2, c)))"

definition baseTag_T :: "store \<Rightarrow> addr \<Rightarrow> string list \<Rightarrow> (store \<times> addr) option" where
  "baseTag_T h t txt =
     (case alloc_text (case txt of [] \<Rightarrow> [] | s # ss \<Rightarrow> EscapeString s) h of
        (h1, c) \<Rightarrow>
          (case text_at h1 c of
             None \<Rightarrow> None
           | Some x \<Rightarrow>
               (case append_child (h1\<lparr>cells := (cells h1)(c \<mapsto> TextCell (x\<lparr>xparent := Some t\<rparr>))\<rparr>) t c of
                  None \<Rightarrow> None
                | Some h2 \<Rightarrow> Some (h2, c))))"

text \<open>
  \<open>getChildren\<close> is empty for a \<open>singleTag\<close>. \<open>RemoveChildren\<close> empties the slice of a tag
  (a \<open>singleTag\<close> does nothing) and does not touch the children. \<open>RemoveParent\<close> searches the
  children of the parent from the end for the tag itself, splices it out, and clears the
  parent of the tag; with no parent it panics.
\<close>

definition getChildren :: "tagObj \<Rightarrow> addr list" where
  "getChildren obj = (if okind obj = singleTagK then [] else ochildren obj)"

definition RemoveChildren :: "store \<Rightarrow> addr \<Rightarrow> store option" where
  "RemoveChildren h t =
     (case tag_at h t of
        None \<Rightarrow> None
      | Some obj \<Rightarrow>
          if okind obj = singleTagK then Some h
          else Some (h\<lparr>cells := (cells h)(t \<mapsto> TagCell (obj\<lparr>ochildren := []\<rparr>))\<rparr>))"

fun remove_last :: "addr \<Rightarrow> addr list \<Rightarrow> addr list option" where
  "remove_last t [] = None"
| "remove_last t (c # cs) =
     (case remove_last t cs of
        Some cs' \<Rightarrow> Some (c # cs')
      | None \<Rightarrow> if c = t then Some cs else None)"

definition RemoveParent :: "store \<Rightarrow> addr \<Rightarrow> store option" where
  "RemoveParent h t =
     (case tag_at h t of
        None \<Rightarrow> None
      | Some obj \<Rightarrow>
          (case oparent obj of
             None \<Rightarrow> None
           | Some p \<Rightarrow>
               (case tag_at h p of
                  None \<Rightarrow> None
                | Some pobj \<Rightarrow>
                    (let h1 = (case remove_last t (getChildren pobj) of
                                 None \<Rightarrow> h
                               | Some newChildren \<Rightarrow>
                                   h\<lparr>cells := (cells h)(p \<mapsto> TagCell (pobj\<lparr>ochildren := newChildren\<rparr>))\<rparr>)
                     in (case tag_at h1 t of
                           None \<Rightarrow> None
                         | Some obj1 \<Rightarrow>
                             Some (h1\<lparr>cells := (cells h1)(t \<mapsto> TagCell (obj1\<lparr>oparent := None\<rparr>))\<rparr>))))))"

subsection \<open>Parent and Up\<close>

text \<open>
  \<open>Parent()\<close> of a tag or of a text leaf; \<open>None\<close> when the address holds no object.
\<close>

definition Parent :: "store \<Rightarrow> addr \<Rightarrow> addr option option" where
  "Parent h a =
     (case cells h a of
        None \<Rightarrow> None
      | Some (TagCell obj) \<Rightarrow> Some (oparent obj)
      | Some (TextCell x) \<Rightarrow> Some (xparent x))"

text \<open>
  The loop of \<open>Up\<close>: while \<open>realCount > 1\<close> it calls \<open>currTag.Parent()\<close>, which panics when
  \<open>currTag\<close> is nil.
\<close>

function up_loop :: "store \<Rightarrow> addr option \<Rightarrow> int \<Rightarrow> addr option outcome" where
  "up_loop h currTag realCount =
     (if realCount > 1 then
        (case currTag of
           None \<Rightarrow> Panics
         | Some a \<Rightarrow>
             (case Parent h a of
                None \<Rightarrow> Panics
              | Some p \<Rightarrow> up_loop h p (realCount - 1)))
      else Returns currTag)"
  by pat_completeness auto
termination
  by (relation "measure (\<lambda>(h, currTag, realCount). nat realCount)") auto

declare up_loop.simps [simp del]

text \<open>\<open>baseTag.Up\<close> and \<open>TextTag.Up\<close>; the variadic argument is a list.\<close>

definition Up :: "store \<Rightarrow> addr \<Rightarrow> int list \<Rightarrow> addr option outcome" where
  "Up h t cnt =
     (let realCount = (case cnt of [] \<Rightarrow> 1 | c # cs \<Rightarrow> c) in
      case Parent h t of
        None \<Rightarrow> Panics
      | Some p \<Rightarrow> up_loop h p realCount)"

text \<open>What an operation that may panic leaves at an address.\<close>

definition children_of :: "store option \<Rightarrow> addr \<Rightarrow> addr list option" where
  "children_of ho a = (case ho of None \<Rightarrow> None | Some h \<Rightarrow> map_option ochildren (tag_at h a))"

definition parent_of :: "store option \<Rightarrow> addr \<Rightarrow> addr option option" where
  "parent_of ho a = (case ho of None \<Rightarrow> None | Some h \<Rightarrow> Parent h a)"


subsection \<open>Attribute operations on objects, and Copy\<close>







subsection \<open>The tree below an object\<close>





section \<open>The parser: well-formed spans\<close>

lemma IndexRune_None: "IndexRune s c = None \<longleftrightarrow> c \<notin> set s"
  by (induction s) auto

lemma IndexRune_Some: "IndexRune s c = Some i \<Longrightarrow> i < length s \<and> s ! i = c"
  by (induction s arbitrary: i) (auto split: if_splits)

lemma length_reVar_FindString: "length (reVar_FindString s) \<le> length s"
  by (auto simp: reVar_FindString_def split: list.splits intro: le_trans[OF length_takeWhile_le])

lemma parseVars_loop_step:
  assumes "offset < length str" "IndexRune (drop offset str) CHR ''$'' = Some index"
  shows "parseVars_loop str offset vs =
     parseVars_loop str (offset + (index + (1 + length (reVar_FindString (drop (index + 1) (drop offset str))))))
       (vs @ [\<lparr>startOffset = offset + index,
               lengthV = 1 + length (reVar_FindString (drop (index + 1) (drop offset str)))\<rparr>])"
  using assms by (subst parseVars_loop.simps) (simp add: Let_def)

lemma parseVars_loop_stop:
  "\<not> offset < length str \<or> IndexRune (drop offset str) CHR ''$'' = None \<Longrightarrow> parseVars_loop str offset vs = vs"
  by (subst parseVars_loop.simps) (auto simp: Let_def)

lemma parseVars_loop_acc: "parseVars_loop str offset vs = vs @ parseVars_loop str offset []"
proof (induction "length str - offset" arbitrary: offset vs rule: less_induct)
  case less
  show ?case
  proof (cases "offset < length str \<and> IndexRune (drop offset str) CHR ''$'' \<noteq> None")
    case False
    then show ?thesis by (simp add: parseVars_loop_stop)
  next
    case True
    then obtain index where ix: "IndexRune (drop offset str) CHR ''$'' = Some index" and lt: "offset < length str"
      by auto
    let ?len = "1 + length (reVar_FindString (drop (index + 1) (drop offset str)))"
    let ?v = "\<lparr>startOffset = offset + index, lengthV = ?len\<rparr>"
    have dec: "length str - (offset + (index + ?len)) < length str - offset"
      using lt by simp
    have "parseVars_loop str offset vs = parseVars_loop str (offset + (index + ?len)) (vs @ [?v])"
      by (rule parseVars_loop_step[OF lt ix])
    also have "\<dots> = (vs @ [?v]) @ parseVars_loop str (offset + (index + ?len)) []"
      by (rule less.hyps[OF dec])
    also have "\<dots> = vs @ parseVars_loop str (offset + (index + ?len)) ([] @ [?v])"
      using less.hyps[OF dec, of "[] @ [?v]"] by simp
    also have "\<dots> = vs @ parseVars_loop str offset []"
      using parseVars_loop_step[OF lt ix, of "[]"] by simp
    finally show ?thesis .
  qed
qed

lemma parseVars_loop_unfold:
  assumes "offset < length str" "IndexRune (drop offset str) CHR ''$'' = Some index"
  shows "parseVars_loop str offset [] =
     \<lparr>startOffset = offset + index,
      lengthV = 1 + length (reVar_FindString (drop (index + 1) (drop offset str)))\<rparr>
     # parseVars_loop str (offset + (index + (1 + length (reVar_FindString (drop (index + 1) (drop offset str)))))) []"
  using parseVars_loop_step[OF assms, of "[]"]
    parseVars_loop_acc[of str "offset + (index + (1 + length (reVar_FindString (drop (index + 1) (drop offset str)))))"
       "[\<lparr>startOffset = offset + index, lengthV = 1 + length (reVar_FindString (drop (index + 1) (drop offset str)))\<rparr>]"]
  by simp

lemma spans_ok_parseVars_loop: "spans_ok str offset (parseVars_loop str offset [])"
proof (induction "length str - offset" arbitrary: offset rule: less_induct)
  case less
  show ?case
  proof (cases "offset < length str \<and> IndexRune (drop offset str) CHR ''$'' \<noteq> None")
    case False
    then show ?thesis by (simp add: parseVars_loop_stop)
  next
    case True
    then obtain index where ix: "IndexRune (drop offset str) CHR ''$'' = Some index" and lt: "offset < length str"
      by auto
    let ?m = "reVar_FindString (drop (index + 1) (drop offset str))"
    let ?next = "offset + (index + (1 + length ?m))"
    have i1: "index < length str - offset" and i2: "str ! (offset + index) = CHR ''$''"
      using IndexRune_Some[OF ix] lt by auto
    have m: "length ?m \<le> length str - (offset + index + 1)"
      using length_reVar_FindString[of "drop (index + 1) (drop offset str)"] by (simp add: add.commute add.left_commute)
    have dec: "length str - ?next < length str - offset"
      using lt by simp
    have rest: "spans_ok str ?next (parseVars_loop str ?next [])"
      by (rule less.hyps[OF dec])
    have a1: "offset + index < length str" using i1 by simp
    have a2: "offset + index + (1 + length ?m) \<le> length str" using m a1 by simp
    have a3: "offset + index + (1 + length ?m) = ?next" by simp
    show ?thesis
      unfolding parseVars_loop_unfold[OF lt ix] spans_ok.simps Var.simps a3
      using a1 a2 i2 rest by (intro conjI) simp_all
  qed
qed

lemma spans_ok_set:
  "spans_ok str lo vs \<Longrightarrow> v \<in> set vs \<Longrightarrow>
     lo \<le> startOffset v \<and> 1 \<le> lengthV v \<and> startOffset v < length str \<and>
     str ! startOffset v = CHR ''$'' \<and> startOffset v + lengthV v \<le> length str"
proof (induction vs arbitrary: lo)
  case Nil
  then show ?case by simp
next
  case (Cons a vs)
  then show ?case by fastforce
qed

lemma spans_ok_nth:
  "spans_ok str lo vs \<Longrightarrow> i < j \<Longrightarrow> j < length vs \<Longrightarrow>
     startOffset (vs ! i) + lengthV (vs ! i) \<le> startOffset (vs ! j)"
proof (induction vs arbitrary: lo i j)
  case Nil
  then show ?case by simp
next
  case (Cons a vs)
  show ?case
  proof (cases i)
    case 0
    then obtain j' where j: "j = Suc j'" using Cons.prems(2) by (cases j) auto
    have "vs ! j' \<in> set vs" using Cons.prems(3) j by simp
    from spans_ok_set[OF _ this, of str "startOffset a + lengthV a"] Cons.prems(1)
    show ?thesis using 0 j by simp
  next
    case (Suc i')
    then obtain j' where j: "j = Suc j'" using Cons.prems(2) by (cases j) auto
    show ?thesis using Cons.IH[of "startOffset a + lengthV a" i' j'] Cons.prems Suc j by simp
  qed
qed

lemma parseVars_no_delim: "CHR ''$'' \<notin> set str \<Longrightarrow> parseVars str = []"
  unfolding parseVars_def
  by (rule parseVars_loop_stop) (auto simp: IndexRune_None dest: in_set_dropD)

lemma ex1: "parseVars ''01234 $worl'' = [\<lparr>startOffset = 6, lengthV = 5\<rparr>]"
  by code_simp

lemma ex2: "parseVars ''01234 $worl $ $$ $'' = [\<lparr>startOffset = 6, lengthV = 5\<rparr>, \<lparr>startOffset = 12, lengthV = 1\<rparr>,
  \<lparr>startOffset = 14, lengthV = 2\<rparr>, \<lparr>startOffset = 17, lengthV = 1\<rparr>]"
  by code_simp

section \<open>Expansion: the code against the specification\<close>

lemma attempt_write:
  "attempt n (io_WriteString pol out s) k =
     (case pol out s of None \<Rightarrow> k (out @ s) (n + length s) | Some j \<Rightarrow> (out @ take j s, Fail n))"
  by (simp add: io_WriteString_def split: option.splits)

lemma spec_emit_Cons:
  "spec_emit pol n out (p # ps) =
     (case pol out p of None \<Rightarrow> spec_emit pol (n + length p) (out @ p) ps
      | Some j \<Rightarrow> (out @ take j p, Fail n))"
  by (simp add: io_WriteString_def split: option.splits)

lemma write_var_ok:
  assumes "offset \<le> startOffset v" "1 \<le> lengthV v" "startOffset v + lengthV v \<le> length (vtext t)"
  shows "write_var pol t env v offset cnt out =
     spec_emit pol cnt out
       [spec_literal (isUnsafe t) (take (startOffset v - offset) (drop offset (vtext t))),
        spec_substitute env (isUnsafe t) (spec_name (vtext t) v)]"
proof -
  have s1: "slice (vtext t) offset (startOffset v) = Some (take (startOffset v - offset) (drop offset (vtext t)))"
    using assms by (simp add: slice_def)
  have s2: "slice (vtext t) (startOffset v) (startOffset v + lengthV v) = Some (take (lengthV v) (drop (startOffset v) (vtext t)))"
    using assms by (simp add: slice_def)
  have s3: "sliceFrom (take (lengthV v) (drop (startOffset v) (vtext t))) 1 = Some (spec_name (vtext t) v)"
    using assms by (simp add: sliceFrom_def spec_name_def)
  have l: "(if \<not> isUnsafe t then EscapeString x else x) = spec_literal (isUnsafe t) x" for x
    by (simp add: spec_literal_def)
  have sub: "(if spec_name (vtext t) v = ''$'' then attempt c (io_WriteString pol out' ''$'') (\<lambda>out cnt. (out, Ok cnt))
       else (let val = (case env (spec_name (vtext t) v) of None \<Rightarrow> undefinedVarValue | Some x \<Rightarrow> x);
                 valueStr = (if \<not> isUnsafe t then EscapeString val else val)
             in attempt c (io_WriteString pol out' valueStr) (\<lambda>out cnt. (out, Ok cnt))))
       = spec_emit pol c out' [spec_substitute env (isUnsafe t) (spec_name (vtext t) v)]" for c out'
    unfolding Let_def l spec_emit_Cons attempt_write
    by (cases "spec_name (vtext t) v = ''$''")
       (simp_all add: spec_substitute_def undefinedVarValue_def split: option.split)
  show ?thesis
    unfolding write_var_def s1 s2 s3 option.case sub
    unfolding l attempt_write spec_emit_Cons[of pol cnt out]
    by (simp split: option.splits)
qed

lemma spec_emit_pair:
  "spec_emit pol n out (a # b # rest) =
     (case spec_emit pol n out [a, b] of
        (out', Ok n') \<Rightarrow> spec_emit pol n' out' rest
      | (out', Fail m) \<Rightarrow> (out', Fail m)
      | (out', Panic) \<Rightarrow> (out', Panic))"
  unfolding spec_emit_Cons spec_emit.simps(1)
  by (simp split: option.splits)

lemma write_vars_ok:
  "spans_ok (vtext t) offset vs \<Longrightarrow> offset \<le> length (vtext t) \<Longrightarrow>
   write_vars pol t env vs offset cnt out =
     spec_emit pol cnt out (spec_expansion (vtext t) env (isUnsafe t) offset vs)"
proof (induction vs arbitrary: offset cnt out)
  case Nil
  have l: "(if \<not> isUnsafe t then EscapeString x else x) = spec_literal (isUnsafe t) x" for x
    by (simp add: spec_literal_def)
  show ?case
    using Nil.prems(2)
    unfolding write_vars.simps spec_expansion.simps l attempt_write spec_emit_Cons
    by (simp add: sliceFrom_def split: option.splits)
next
  case (Cons v vs)
  from Cons.prems(1) have p: "offset \<le> startOffset v" "1 \<le> lengthV v"
    "startOffset v + lengthV v \<le> length (vtext t)"
    and rest: "spans_ok (vtext t) (startOffset v + lengthV v) vs"
    by simp_all
  have ih: "write_vars pol t env vs (startOffset v + lengthV v) c o' =
      spec_emit pol c o' (spec_expansion (vtext t) env (isUnsafe t) (startOffset v + lengthV v) vs)" for c o'
    by (rule Cons.IH[OF rest p(3)])
  show ?case
    unfolding write_vars.simps write_var_ok[OF p] spec_expansion.simps
    unfolding spec_emit_pair[of pol cnt out _ _ "spec_expansion (vtext t) env (isUnsafe t) (startOffset v + lengthV v) vs"] ih
    by (simp split: prod.splits result.splits)
qed

lemma spec_emit_buffer: "spec_emit buffer n out ps = (out @ concat ps, Ok (n + length (concat ps)))"
  by (induction ps arbitrary: n out) (simp_all add: spec_emit_Cons buffer_def del: spec_emit.simps(2))

lemma spec_emit_no_panic: "snd (spec_emit pol n out ps) \<noteq> Panic"
  by (induction ps arbitrary: n out) (simp_all add: spec_emit_Cons del: spec_emit.simps(2) split: option.splits)

lemma TextTagVar_write_parsed:
  "TextTagVar_write pol out (SetUnsafe u (NewTextTagVar str)) env =
     spec_emit pol 0 out (spec_expansion str env u 0 (parseVars str))"
  using write_vars_ok[of "SetUnsafe u (NewTextTagVar str)" 0 "parseVars str" pol env 0 out]
    spans_ok_parseVars_loop[of str 0]
  by (simp add: TextTagVar_write_def SetUnsafe_def NewTextTagVar_def parseVars_def)


section \<open>Properties of the attribute writers\<close>



























section \<open>Leaves whose spans are the parse of their text\<close>

text \<open>
  A leaf as \<open>NewTextTagVar\<close> builds it, with any value of the unsafe flag, writes the
  expansion of section 4.5 of the specification to any sink; into a buffer the output is the
  concatenation of the pieces and the count its length.
\<close>

lemma TextTagVar_write_expansion:
  "TextTagVar_write pol out (SetUnsafe u (NewTextTagVar s)) env =
     spec_emit pol 0 out (spec_expansion s env u 0 (parseVars s))
   \<and> TextTagVar_write buffer out (SetUnsafe u (NewTextTagVar s)) env =
     (out @ concat (spec_expansion s env u 0 (parseVars s)),
      Ok (length (concat (spec_expansion s env u 0 (parseVars s)))))"
  by (simp add: TextTagVar_write_parsed spec_emit_buffer)

lemma TextTagVar_write_expansion_example:
  "TextTagVar_write buffer [] (SetUnsafe False (NewTextTagVar ''hello, $name & $$'')) [''name'' \<mapsto> ''foo&bar'']
     = (''hello, foo&amp;bar &amp; $'', Ok 26)"
proof -
  have e: "spec_expansion ''hello, $name & $$'' [''name'' \<mapsto> ''foo&bar''] False 0 (parseVars ''hello, $name & $$'')
     = [''hello, '', ''foo&amp;bar'', '' &amp; '', ''$'', []]"
    by code_simp
  show ?thesis
    using TextTagVar_write_expansion [of buffer "[]" False "''hello, $name & $$''" "[''name'' \<mapsto> ''foo&bar'']", THEN conjunct2]
    unfolding e by simp
qed

text \<open>
  The spans of \<open>parseVars\<close> are well-formed, and the write of a leaf as \<open>NewTextTagVar\<close>
  builds it does not panic.
\<close>

lemma parseVars_wellformed:
  "(\<forall>v \<in> set (parseVars s).
      1 \<le> lengthV v \<and> startOffset v < length s \<and> s ! startOffset v = CHR ''$'' \<and>
      startOffset v + lengthV v \<le> length s) \<and>
   (\<forall>i j. i < j \<and> j < length (parseVars s) \<longrightarrow>
      startOffset (parseVars s ! i) + lengthV (parseVars s ! i) \<le> startOffset (parseVars s ! j)) \<and>
   snd (TextTagVar_write pol out (SetUnsafe u (NewTextTagVar s)) env) \<noteq> Panic"
proof -
  have ok: "spans_ok s 0 (parseVars s)"
    unfolding parseVars_def by (rule spans_ok_parseVars_loop)
  have a: "\<forall>v \<in> set (parseVars s).
      1 \<le> lengthV v \<and> startOffset v < length s \<and> s ! startOffset v = CHR ''$'' \<and>
      startOffset v + lengthV v \<le> length s"
    using spans_ok_set[OF ok] by blast
  have b: "\<forall>i j. i < j \<and> j < length (parseVars s) \<longrightarrow>
      startOffset (parseVars s ! i) + lengthV (parseVars s ! i) \<le> startOffset (parseVars s ! j)"
    using spans_ok_nth[OF ok] by blast
  have c: "snd (TextTagVar_write pol out (SetUnsafe u (NewTextTagVar s)) env) \<noteq> Panic"
    unfolding TextTagVar_write_parsed by (rule spec_emit_no_panic)
  from a b c show ?thesis by blast
qed

lemma parseVars_wellformed_example:
  "parseVars ''$a$b'' ! 0 \<in> set (parseVars ''$a$b'') \<and>
   1 \<le> lengthV (parseVars ''$a$b'' ! 0) \<and>
   startOffset (parseVars ''$a$b'' ! 0) < length ''$a$b'' \<and>
   ''$a$b'' ! startOffset (parseVars ''$a$b'' ! 0) = CHR ''$'' \<and>
   startOffset (parseVars ''$a$b'' ! 0) + lengthV (parseVars ''$a$b'' ! 0) \<le> length ''$a$b'' \<and>
   (0::nat) < 1 \<and> 1 < length (parseVars ''$a$b'') \<and>
   startOffset (parseVars ''$a$b'' ! 0) + lengthV (parseVars ''$a$b'' ! 0)
     \<le> startOffset (parseVars ''$a$b'' ! 1)"
proof -
  have e: "parseVars ''$a$b'' = [\<lparr>startOffset = 0, lengthV = 2\<rparr>, \<lparr>startOffset = 2, lengthV = 2\<rparr>]"
    by code_simp
  have h: "(0::nat) < 1 \<and> 1 < length (parseVars ''$a$b'')"
    unfolding e by simp
  have m: "parseVars ''$a$b'' ! 0 \<in> set (parseVars ''$a$b'')"
    unfolding e by simp
  from parseVars_wellformed [of "''$a$b''"] have
    a: "\<forall>v \<in> set (parseVars ''$a$b''). 1 \<le> lengthV v \<and> startOffset v < length ''$a$b'' \<and>
      ''$a$b'' ! startOffset v = CHR ''$'' \<and> startOffset v + lengthV v \<le> length ''$a$b''"
    and b: "\<forall>i j. i < j \<and> j < length (parseVars ''$a$b'') \<longrightarrow>
      startOffset (parseVars ''$a$b'' ! i) + lengthV (parseVars ''$a$b'' ! i)
        \<le> startOffset (parseVars ''$a$b'' ! j)"
    by blast+
  from b h have c: "startOffset (parseVars ''$a$b'' ! 0) + lengthV (parseVars ''$a$b'' ! 0)
     \<le> startOffset (parseVars ''$a$b'' ! 1)"
    by blast
  from a m have "1 \<le> lengthV (parseVars ''$a$b'' ! 0) \<and>
      startOffset (parseVars ''$a$b'' ! 0) < length ''$a$b'' \<and>
      ''$a$b'' ! startOffset (parseVars ''$a$b'' ! 0) = CHR ''$'' \<and>
      startOffset (parseVars ''$a$b'' ! 0) + lengthV (parseVars ''$a$b'' ! 0) \<le> length ''$a$b''"
    by blast
  with m h c show ?thesis by blast
qed

section \<open>Properties of the writers and of the attribute operations\<close>

text \<open>
  A hidden \<open>baseTag\<close> writes nothing, in both renderings; \<open>singleTag.write\<close> and
  \<open>singleTag.writePretty\<close> do not read the hidden flag.
\<close>

lemma baseTag_hidden_writes_nothing:
  "hidden t \<Longrightarrow> tagWriter_write pol env (Tag baseTagK t cs) out = (Tag baseTagK t cs, out, Ok 0)"
  "hidden t \<Longrightarrow> tagWriter_writePretty pol env indent (Tag baseTagK t cs) out = (out, Ok 0)"
  by simp_all

lemma writeOpenTagLead_hidden:
  "writeOpenTagLead pol (t\<lparr>hidden := b\<rparr>) tagStr out = writeOpenTagLead pol t tagStr out"
  unfolding writeOpenTagLead_def by simp

lemma singleTag_write_ignores_hidden:
  "snd (singleTag_write pol (t\<lparr>hidden := b\<rparr>) out) = snd (singleTag_write pol t out)"
  unfolding singleTag_write_def refreshCache_def singleTag_renderCacheOpen_def writeOpenTagLead_hidden
  by (simp split: option.splits outcome.splits prod.splits result.splits)

lemma singleTag_writePretty_ignores_hidden:
  "singleTag_writePretty pol indent (t\<lparr>hidden := b\<rparr>) out = singleTag_writePretty pol indent t out"
  unfolding singleTag_writePretty_def writeOpenTagLeadSorted_def write_sorted_attrs_def
  by (simp cong: if_cong option.case_cong)

text \<open>
  The attribute and class operations that clear \<open>isCacheClean\<close>; \<open>AddClasses\<close> does so
  when it is given a class.
\<close>

lemma mutators_invalidate:
  "\<not> isCacheClean (setAttr keyId v t)"
  "\<not> isCacheClean (SetId v t)"
  "\<not> isCacheClean (SetTitle v t)"
  "\<not> isCacheClean (BodyTag_SetOnload v t)"
  "\<not> isCacheClean (SetAttribute key v t)"
  "\<not> isCacheClean (SetAttributes kvs t)"
  "\<not> isCacheClean (RemoveAttribute key t)"
  "\<not> isCacheClean (RemoveAttributes keys t)"
  "\<not> isCacheClean (SetClasses classes t)"
  "classes \<noteq> [] \<Longrightarrow> \<not> isCacheClean (AddClasses classes t)"
  "\<not> isCacheClean (CheckedInputTag_SetChecked b t)"
  "\<not> isCacheClean (InputTag_SetValue v t)"
  "\<not> isCacheClean (OptionTag_SetOptions opts t)"
  "\<not> isCacheClean (OptionTag_SetSelected b t)"
  by (simp_all add: setAttr_def SetId_def SetTitle_def BodyTag_SetOnload_def SetAttribute_def
        SetAttributes_def RemoveAttribute_def RemoveAttributes_def SetClasses_def AddClasses_def
        CheckedInputTag_SetChecked_def InputTag_SetValue_def OptionTag_SetOptions_def
        OptionTag_SetSelected_def Let_def)

section \<open>Properties of the object store\<close>

lemma up_loop_stop: "realCount \<le> 1 \<Longrightarrow> up_loop h p realCount = Returns p"
  by (subst up_loop.simps) simp














section \<open>Claims about the parser and the expansion\<close>

text \<open>
  Claim C3. A text without the delimiter \<open>$\<close> parses to the empty span list;
  \<open>"01234 $worl"\<close> parses to the single span \<open>{6, 5}\<close>, and \<open>"01234 $worl $ $$ $"\<close> to the
  four spans \<open>{6, 5}\<close>, \<open>{12, 1}\<close>, \<open>{14, 2}\<close>, \<open>{17, 1}\<close>, in this order.
\<close>

theorem parseVars_examples:
  "(CHR ''$'' \<notin> set s \<longrightarrow> parseVars s = []) \<and>
   parseVars ''01234 $worl'' = [\<lparr>startOffset = 6, lengthV = 5\<rparr>] \<and>
   parseVars ''01234 $worl $ $$ $'' =
     [\<lparr>startOffset = 6, lengthV = 5\<rparr>, \<lparr>startOffset = 12, lengthV = 1\<rparr>,
      \<lparr>startOffset = 14, lengthV = 2\<rparr>, \<lparr>startOffset = 17, lengthV = 1\<rparr>]"
proof (intro conjI impI)
  show "parseVars s = []" if "CHR ''$'' \<notin> set s"
    using that by (rule parseVars_no_delim)
  show "parseVars ''01234 $worl'' = [\<lparr>startOffset = 6, lengthV = 5\<rparr>]"
    by code_simp
  show "parseVars ''01234 $worl $ $$ $'' =
     [\<lparr>startOffset = 6, lengthV = 5\<rparr>, \<lparr>startOffset = 12, lengthV = 1\<rparr>,
      \<lparr>startOffset = 14, lengthV = 2\<rparr>, \<lparr>startOffset = 17, lengthV = 1\<rparr>]"
    by code_simp
qed

theorem parseVars_examples_witness:
  "CHR ''$'' \<notin> set ''hello'' \<and> parseVars ''hello'' = []"
  using parseVars_examples [of "''hello''"] by simp

text \<open>
  Claim C2. The claim is for every variable text leaf, but \<open>write\<close> walks the spans
  that \<open>NewTextTagVar\<close> parsed, and \<open>SetText\<close> and \<open>TextTagVar.TV\<close> change the text
  without parsing it again. A leaf built from \<open>"hello $name"\<close> whose text \<open>SetText\<close> has
  replaced by \<open>"hi"\<close> panics at the slice \<open>t.text[0:6]\<close> and writes nothing; the empty leaf
  extended by \<open>TV("hello $name")\<close> writes \<open>hello $name\<close> with the variable left as it
  is, where the leaf built from the same text writes \<open>hello foo\<close>.
\<close>

theorem TextTagVar_write_stale_spans:
  "TextTagVar_write buffer [] (SetText ''hi'' (NewTextTagVar ''hello $name'')) [''name'' \<mapsto> ''foo'']
     = ([], Panic) \<and>
   TextTagVar_write buffer [] (TextTagVar_TV [''hello $name''] (NewTextTagVar [])) [''name'' \<mapsto> ''foo'']
     = (''hello $name'', Ok 11) \<and>
   TextTagVar_write buffer [] (NewTextTagVar ''hello $name'') [''name'' \<mapsto> ''foo'']
     = (''hello foo'', Ok 9)"
  by code_simp

text \<open>
  Claim C10. The spans of \<open>parseVars\<close> are well-formed for the text they were parsed from,
  but the slicing in \<open>TextTagVar.write\<close> is applied to the current text of the leaf: after
  \<open>NewTextTagVar("$abc").SetText("")\<close> the leaf still holds the span \<open>{0, 4}\<close>, the slice
  \<open>t.text[0:4]\<close> of the empty text is out of range, and \<open>write\<close> panics.
\<close>

theorem TextTagVar_write_slice_out_of_range:
  "vars (SetText [] (NewTextTagVar ''$abc'')) = [\<lparr>startOffset = 0, lengthV = 4\<rparr>] \<and>
   vtext (SetText [] (NewTextTagVar ''$abc'')) = [] \<and>
   slice (vtext (SetText [] (NewTextTagVar ''$abc''))) 0 4 = None \<and>
   TextTagVar_write buffer [] (SetText [] (NewTextTagVar ''$abc'')) Map.empty = ([], Panic)"
  by code_simp

section \<open>Claim about the attribute order of the pretty rendering\<close>




section \<open>Claims about rendering and the cache\<close>

text \<open>
  Claim C1. The claim is for every node kind, but only \<open>baseTag.write\<close> and
  \<open>baseTag.writePretty\<close> test the hidden flag. A \<open>singleTag\<close> writes the same bytes and
  returns the same count whether it is hidden or not, in both renderings: a hidden
  \<open>br\<close> writes \<open><br />\<close> and counts 6 bytes, also as the child of a \<open>div\<close> in the
  compact rendering; a hidden comment is written too. In the pretty rendering a \<open>div\<close>
  whose only child is hidden keeps the newline that separates the children from the
  closing tag.
\<close>

theorem hidden_singleTag_is_written:
  "snd (tagWriter_write pol env (Tag singleTagK (Hide True t) cs) out)
     = snd (tagWriter_write pol env (Tag singleTagK t cs) out) \<and>
   tagWriter_writePretty pol env indent (Tag singleTagK (Hide True t) cs) out
     = tagWriter_writePretty pol env indent (Tag singleTagK t cs) out \<and>
   snd (tagWriter_write buffer Map.empty (Tag singleTagK (Hide True (newBaseTag kTagTypeBr)) []) [])
     = (''<br />'', Ok 6) \<and>
   snd (tagWriter_write buffer Map.empty
          (Tag baseTagK (newBaseTag kTagTypeDiv)
             [Tag singleTagK (Hide True (newBaseTag kTagTypeBr)) []]) [])
     = (''<div><br /></div>'', Ok 17) \<and>
   snd (tagWriter_write buffer Map.empty
          (Tag commentTagK (Hide True (newBaseTag 0)) [Text ''c'']) [])
     = (''<!-- c -->'', Ok 10) \<and>
   tagWriter_writePretty buffer Map.empty 0 (Tag singleTagK (Hide True (newBaseTag kTagTypeBr)) []) []
     = (''<br />'', Ok 6) \<and>
   tagWriter_writePretty buffer Map.empty 0
          (Tag baseTagK (newBaseTag kTagTypeDiv)
             [Tag baseTagK (Hide True (newBaseTag kTagTypeSpan)) []]) []
     = (''<div>'' @ [newline] @ ''</div>'', Ok 12)"
proof -
  have a: "snd (tagWriter_write pol env (Tag singleTagK (Hide True t) cs) out)
     = snd (tagWriter_write pol env (Tag singleTagK t cs) out)"
    using singleTag_write_ignores_hidden[where pol = pol and t = t and b = True and out = out]
    by (auto simp: Hide_def split: prod.splits)
  have b: "tagWriter_writePretty pol env indent (Tag singleTagK (Hide True t) cs) out
     = tagWriter_writePretty pol env indent (Tag singleTagK t cs) out"
    by (simp add: Hide_def singleTag_writePretty_ignores_hidden)
  have c: "snd (tagWriter_write buffer Map.empty (Tag singleTagK (Hide True (newBaseTag kTagTypeBr)) []) [])
     = (''<br />'', Ok 6)"
    by code_simp
  have d: "snd (tagWriter_write buffer Map.empty
          (Tag baseTagK (newBaseTag kTagTypeDiv)
             [Tag singleTagK (Hide True (newBaseTag kTagTypeBr)) []]) [])
     = (''<div><br /></div>'', Ok 17)"
    by code_simp
  have e: "snd (tagWriter_write buffer Map.empty
          (Tag commentTagK (Hide True (newBaseTag 0)) [Text ''c'']) [])
     = (''<!-- c -->'', Ok 10)"
    by code_simp
  have f: "tagWriter_writePretty buffer Map.empty 0 (Tag singleTagK (Hide True (newBaseTag kTagTypeBr)) []) []
     = (''<br />'', Ok 6)"
    by code_simp
  have g: "tagWriter_writePretty buffer Map.empty 0
          (Tag baseTagK (newBaseTag kTagTypeDiv)
             [Tag baseTagK (Hide True (newBaseTag kTagTypeSpan)) []]) []
     = (''<div>'' @ [newline] @ ''</div>'', Ok 12)"
    by code_simp
  from a b c d e f g show ?thesis by blast
qed

text \<open>
  Claim C5. The claim is for every operation that changes the attributes, but
  \<open>ResetOptions\<close> of an input tag (and of an option tag) deletes attributes and leaves
  \<open>isCacheClean\<close> and \<open>cacheOpen\<close> as they are. An input tag with type, name and value,
  written once, has a clean cache; after \<open>ResetOptions\<close> the value attribute is gone from
  \<open>attrs\<close>, and the next compact write still emits the cached tag with the value, where
  after \<open>SetValue("")\<close> it emits the tag without it.
\<close>

theorem ResetOptions_keeps_cache:
  "isCacheClean (InputTag_ResetOptions t) = isCacheClean t \<and>
   cacheOpen (InputTag_ResetOptions t) = cacheOpen t \<and>
   isCacheClean (OptionTag_ResetOptions t) = isCacheClean t \<and>
   singleTag_write buffer (InputTypeNameValue ''text'' ''n'' ''v'') [] =
     ((InputTypeNameValue ''text'' ''n'' ''v'')
        \<lparr>cacheOpen := ''<input'' @ spec_attr_text (''type'', ''text'') @ spec_attr_text (''name'', ''n'')
                         @ spec_attr_text (''value'', ''v'') @ '' />'',
         isCacheClean := True\<rparr>,
      ''<input'' @ spec_attr_text (''type'', ''text'') @ spec_attr_text (''name'', ''n'')
         @ spec_attr_text (''value'', ''v'') @ '' />'', Ok 40) \<and>
   attrs (InputTag_ResetOptions (fst (singleTag_write buffer (InputTypeNameValue ''text'' ''n'' ''v'') [])))
     = [(kAttrType, ''text''), (kAttrName, ''n'')] \<and>
   snd (singleTag_write buffer
          (InputTag_ResetOptions (fst (singleTag_write buffer (InputTypeNameValue ''text'' ''n'' ''v'') []))) [])
     = (''<input'' @ spec_attr_text (''type'', ''text'') @ spec_attr_text (''name'', ''n'')
         @ spec_attr_text (''value'', ''v'') @ '' />'', Ok 40) \<and>
   snd (singleTag_write buffer
          (InputTag_SetValue [] (fst (singleTag_write buffer (InputTypeNameValue ''text'' ''n'' ''v'') []))) [])
     = (''<input'' @ spec_attr_text (''type'', ''text'') @ spec_attr_text (''name'', ''n'') @ '' />'', Ok 30)"
proof -
  have a: "isCacheClean (InputTag_ResetOptions t) = isCacheClean t"
    "cacheOpen (InputTag_ResetOptions t) = cacheOpen t"
    "isCacheClean (OptionTag_ResetOptions t) = isCacheClean t"
    by (simp_all add: InputTag_ResetOptions_def OptionTag_ResetOptions_def)
  have b: "singleTag_write buffer (InputTypeNameValue ''text'' ''n'' ''v'') [] =
     ((InputTypeNameValue ''text'' ''n'' ''v'')
        \<lparr>cacheOpen := ''<input'' @ spec_attr_text (''type'', ''text'') @ spec_attr_text (''name'', ''n'')
                         @ spec_attr_text (''value'', ''v'') @ '' />'',
         isCacheClean := True\<rparr>,
      ''<input'' @ spec_attr_text (''type'', ''text'') @ spec_attr_text (''name'', ''n'')
         @ spec_attr_text (''value'', ''v'') @ '' />'', Ok 40)"
    by code_simp
  have c: "attrs (InputTag_ResetOptions (fst (singleTag_write buffer (InputTypeNameValue ''text'' ''n'' ''v'') [])))
     = [(kAttrType, ''text''), (kAttrName, ''n'')]"
    by code_simp
  have d: "snd (singleTag_write buffer
          (InputTag_ResetOptions (fst (singleTag_write buffer (InputTypeNameValue ''text'' ''n'' ''v'') []))) [])
     = (''<input'' @ spec_attr_text (''type'', ''text'') @ spec_attr_text (''name'', ''n'')
         @ spec_attr_text (''value'', ''v'') @ '' />'', Ok 40)"
    by code_simp
  have e: "snd (singleTag_write buffer
          (InputTag_SetValue [] (fst (singleTag_write buffer (InputTypeNameValue ''text'' ''n'' ''v'') []))) [])
     = (''<input'' @ spec_attr_text (''type'', ''text'') @ spec_attr_text (''name'', ''n'') @ '' />'', Ok 30)"
    by code_simp
  from a b c d e show ?thesis by blast
qed

text \<open>
  Claim C9. The claim is that a failed render reports the bytes written so far, but a
  writer that meets an error returns the count of the writes it had completed itself
  before the failing one and drops the count of the failing call. With a sink that takes
  11 bytes, \<open>div\<close> holding an empty \<open>span\<close> writes \<open><div><span>\<close> and reports 5;
  with a sink that takes 7 bytes, \<open>div\<close> holding the text \<open>hello\<close> writes \<open><div>he\<close>
  and reports 5; in the pretty rendering 14 bytes are written and 6 reported. Into a
  buffer the same tree reports its 24 bytes.
\<close>

theorem failed_write_drops_bytes:
  "snd (tagWriter_write (limited 11) Map.empty
          (Tag baseTagK (newBaseTag kTagTypeDiv) [Tag baseTagK (newBaseTag kTagTypeSpan) []]) [])
     = (''<div><span>'', Fail 5) \<and>
   snd (tagWriter_write (limited 7) Map.empty
          (Tag baseTagK (newBaseTag kTagTypeDiv) [Text ''hello'']) [])
     = (''<div>he'', Fail 5) \<and>
   tagWriter_writePretty (limited 14) Map.empty 0
          (Tag baseTagK (newBaseTag kTagTypeDiv) [Tag baseTagK (newBaseTag kTagTypeSpan) []]) []
     = (''<div>'' @ [newline] @ ''  <span>'', Fail 6) \<and>
   snd (tagWriter_write buffer Map.empty
          (Tag baseTagK (newBaseTag kTagTypeDiv) [Tag baseTagK (newBaseTag kTagTypeSpan) []]) [])
     = (''<div><span></span></div>'', Ok 24)"
  by code_simp

section \<open>Claims about parents, children and copies\<close>

text \<open>
  Claim C4. The claim is for every operation that attaches a child, but \<open>baseTag.AddChild\<close>
  only appends to the children. Two fresh \<open>div\<close> tags are the objects 2 and 5; after
  \<open>AddChild\<close> of 5 to 2 the children of 2 are \<open>[5]\<close> and the parent of 5 is still absent, so
  that \<open>RemoveParent\<close> of 5 panics; after \<open>addChild\<close>, which the factory methods use, the
  parent of 5 is 2. \<open>RemoveChildren\<close> of 2 then empties the children of 2 and leaves the
  parent of 5 at 2, although 5 is detached.
\<close>

theorem AddChild_leaves_parent_unset:
  "snd (Div empty_store) = 2 \<and> snd (Div (fst (Div empty_store))) = 5 \<and>
   children_of (AddChild (fst (Div (fst (Div empty_store)))) 2 5) 2 = Some [5] \<and>
   parent_of (AddChild (fst (Div (fst (Div empty_store)))) 2 5) 5 = Some None \<and>
   Option.bind (AddChild (fst (Div (fst (Div empty_store)))) 2 5) (\<lambda>h. RemoveParent h 5) = None \<and>
   children_of (addChild (fst (Div (fst (Div empty_store)))) 2 5) 2 = Some [5] \<and>
   parent_of (addChild (fst (Div (fst (Div empty_store)))) 2 5) 5 = Some (Some 2) \<and>
   children_of (Option.bind (addChild (fst (Div (fst (Div empty_store)))) 2 5) (\<lambda>h. RemoveChildren h 2)) 2
     = Some [] \<and>
   parent_of (Option.bind (addChild (fst (Div (fst (Div empty_store)))) 2 5) (\<lambda>h. RemoveChildren h 2)) 5
     = Some (Some 2)"
  by code_simp

text \<open>
  Claim C8. \<open>Up\<close> with a count below 1, with the count 1 and with no count are the same,
  for every store and object. But a walk that passes beyond the root panics instead of
  returning nil: for a root (object 2) \<open>Up()\<close> returns nil and \<open>Up(2)\<close> panics; for a
  \<open>div\<close> (object 5) created under the root, \<open>Up()\<close> is the root, \<open>Up(2)\<close> is nil and
  \<open>Up(3)\<close> panics.
\<close>

theorem Up_beyond_root_panics:
  "Up h t [- int k] = Up h t [] \<and> Up h t [1] = Up h t [] \<and>
   snd (NewRoot empty_store) = 2 \<and>
   Up (fst (NewRoot empty_store)) 2 [] = Returns None \<and>
   Up (fst (NewRoot empty_store)) 2 [2] = Panics \<and>
   map_option snd (baseTag_Div (fst (NewRoot empty_store)) 2) = Some 5 \<and>
   map_option (\<lambda>(h, c). Up h c []) (baseTag_Div (fst (NewRoot empty_store)) 2) = Some (Returns (Some 2)) \<and>
   map_option (\<lambda>(h, c). Up h c [2]) (baseTag_Div (fst (NewRoot empty_store)) 2) = Some (Returns None) \<and>
   map_option (\<lambda>(h, c). Up h c [3]) (baseTag_Div (fst (NewRoot empty_store)) 2) = Some Panics"
proof -
  have a: "Up h t [- int k] = Up h t []" "Up h t [1] = Up h t []"
    unfolding Up_def by (simp_all add: up_loop_stop split: option.splits)
  have b: "snd (NewRoot empty_store) = 2 \<and>
   Up (fst (NewRoot empty_store)) 2 [] = Returns None \<and>
   Up (fst (NewRoot empty_store)) 2 [2] = Panics \<and>
   map_option snd (baseTag_Div (fst (NewRoot empty_store)) 2) = Some 5 \<and>
   map_option (\<lambda>(h, c). Up h c []) (baseTag_Div (fst (NewRoot empty_store)) 2) = Some (Returns (Some 2)) \<and>
   map_option (\<lambda>(h, c). Up h c [2]) (baseTag_Div (fst (NewRoot empty_store)) 2) = Some (Returns None) \<and>
   map_option (\<lambda>(h, c). Up h c [3]) (baseTag_Div (fst (NewRoot empty_store)) 2) = Some Panics"
    by code_simp
  from a b show ?thesis by blast
qed



end
